theory Spec2Isabelle
  imports Main
begin

section \<open>Paths\<close>

text \<open>
  The class keeps its output directory as a \<^verbatim>\<open>pathlib.Path\<close> and derives every output
  file from it with the \<^verbatim>\<open>/\<close> operator and \<^verbatim>\<open>str\<close>. A path is modelled the way
  the POSIX flavour of pathlib stores it: an anchor (\<^verbatim>\<open>''\<close>, \<^verbatim>\<open>'/'\<close> or \<^verbatim>\<open>'//'\<close>) and the
  list of its components, with empty components and \<^verbatim>\<open>'.'\<close> dropped when a string is
  parsed.
\<close>

record path =
  anchor :: string
  parts :: "string list"

fun split_on :: "char \<Rightarrow> string \<Rightarrow> string list" where
  "split_on c [] = [[]]"
| "split_on c (x # xs) =
     (if x = c then [] # split_on c xs
      else (case split_on c xs of
              [] \<Rightarrow> [[x]]
            | w # ws \<Rightarrow> (x # w) # ws))"

definition splitroot :: "string \<Rightarrow> string \<times> string" where
  "splitroot p =
     (if take 1 p \<noteq> ''/'' then ('''', p)
      else if take 2 p = ''//'' \<and> take 3 p \<noteq> ''///'' then (''//'', drop 2 p)
      else (''/'', dropWhile (\<lambda>c. c = CHR ''/'') p))"

definition Path :: "string \<Rightarrow> path" where
  "Path s =
     (case splitroot s of
        (r, rel) \<Rightarrow>
          \<lparr>anchor = r,
           parts = filter (\<lambda>x. x \<noteq> [] \<and> x \<noteq> ''.'') (split_on (CHR ''/'') rel)\<rparr>)"

text \<open>\<^verbatim>\<open>p / key\<close>: an absolute key replaces the path, a relative one is appended.\<close>

definition truediv :: "path \<Rightarrow> string \<Rightarrow> path" where
  "truediv p key =
     (let k = Path key
      in if anchor k \<noteq> [] then k
         else \<lparr>anchor = anchor p, parts = parts p @ parts k\<rparr>)"

fun join :: "string \<Rightarrow> string list \<Rightarrow> string" where
  "join sep [] = []"
| "join sep [x] = x"
| "join sep (x # y # ys) = x @ sep @ join sep (y # ys)"

text \<open>\<^verbatim>\<open>str(p)\<close>: the empty relative path is written \<^verbatim>\<open>'.'\<close>.\<close>

definition path_str :: "path \<Rightarrow> string" where
  "path_str p =
     (if anchor p = [] \<and> parts p = [] then ''.''
      else anchor p @ join ''/'' (parts p))"

section \<open>The class and its command-line demos\<close>

text \<open>
  \<^verbatim>\<open>FFmpegMasterclass\<close> has one attribute, the output directory set by the constructor.
\<close>

record FFmpegMasterclass =
  output_dir :: path

text \<open>
  The three subprocess demos build the list \<^verbatim>\<open>cmd\<close> from the caller's input file and an
  output file under the output directory. The definitions below are those lists, element
  by element.
\<close>

definition demo_cli_basic_conversion_cmd :: "FFmpegMasterclass \<Rightarrow> string \<Rightarrow> string list" where
  "demo_cli_basic_conversion_cmd self input_file =
     (let output_file = truediv (output_dir self) ''converted_basic.webm''
      in [''ffmpeg'',
          ''-i'',
          input_file,
          ''-c:v'',
          ''libvpx-vp9'',
          ''-c:a'',
          ''libopus'',
          ''-b:v'',
          ''1M'',
          ''-b:a'',
          ''128k'',
          ''-y'',
          path_str output_file])"

definition filter_complex :: string where
  "filter_complex =
     ''[0:v]scale=1280:720,'' @
     ''drawtext=text='FFmpeg Demo':fontsize=48:fontcolor=white:'' @
     ''x=(w-text_w)/2:y=50:box=1:boxcolor=black@0.5:boxborderw=5,'' @
     ''eq=contrast=1.2:brightness=0.1[v]''"

definition demo_cli_with_filters_cmd :: "FFmpegMasterclass \<Rightarrow> string \<Rightarrow> string list" where
  "demo_cli_with_filters_cmd self input_file =
     (let output_file = truediv (output_dir self) ''filtered_cli.mp4''
      in [''ffmpeg'',
          ''-i'',
          input_file,
          ''-filter_complex'',
          filter_complex,
          ''-map'',
          ''[v]'',
          ''-map'',
          ''0:a?'',
          ''-c:v'',
          ''libx264'',
          ''-preset'',
          ''medium'',
          ''-crf'',
          ''23'',
          ''-c:a'',
          ''aac'',
          ''-y'',
          path_str output_file])"

definition demo_cli_extract_audio_cmd :: "FFmpegMasterclass \<Rightarrow> string \<Rightarrow> string list" where
  "demo_cli_extract_audio_cmd self input_file =
     (let output_file = truediv (output_dir self) ''extracted_audio.mp3''
      in [''ffmpeg'',
          ''-i'',
          input_file,
          ''-vn'',
          ''-acodec'',
          ''libmp3lame'',
          ''-q:a'',
          ''2'',
          ''-y'',
          path_str output_file])"

section \<open>Requests built through the wrapper library\<close>

text \<open>
  The other demos describe the invocation with the ffmpeg-python builder and hand the
  description to the library, which derives the argument list and starts the process. The
  description is modelled as the tree of builder calls the source makes:
  \<^verbatim>\<open>ffmpeg.input(filename, **kwargs)\<close>, \<^verbatim>\<open>.filter(name, *args, **kwargs)\<close> (also with a
  list of upstream streams), \<^verbatim>\<open>ffmpeg.concat(*streams, **kwargs)\<close>, the selectors
  \<^verbatim>\<open>.video\<close> and \<^verbatim>\<open>.audio\<close>, \<^verbatim>\<open>.output(filename, **kwargs)\<close> and
  \<^verbatim>\<open>.overwrite_output()\<close>. Keyword arguments keep the order of the call.

  A value is a string, an integer literal, a float literal (kept as written), \<^verbatim>\<open>None\<close>,
  or a number supplied by the caller. The demos never compute with the caller's numbers,
  so their type is a parameter \<open>'n\<close>.
\<close>

datatype 'n pyval =
    PStr string
  | PInt int
  | PFloat string
  | PNone
  | PNum 'n

type_synonym 'n kwargs = "(string \<times> 'n pyval) list"

datatype 'n stream =
    Input string "'n kwargs"
  | Filter "'n stream list" string "'n pyval list" "'n kwargs"
  | Concat "'n stream list" "'n kwargs"
  | Video "'n stream"
  | Audio "'n stream"
  | Output "'n stream list" string "'n kwargs"
  | OverwriteOutput "'n stream"

definition demo_ffmpeg_python_basic_stream :: "FFmpegMasterclass \<Rightarrow> string \<Rightarrow> 'n stream" where
  "demo_ffmpeg_python_basic_stream self input_file =
     (let output_file = truediv (output_dir self) ''converted_python.mp4''
      in OverwriteOutput
           (Output [Input input_file []]
              (path_str output_file)
              [(''vcodec'', PStr ''libx264''),
               (''acodec'', PStr ''aac''),
               (''video_bitrate'', PStr ''2M''),
               (''audio_bitrate'', PStr ''192k''),
               (''preset'', PStr ''medium'')]))"

definition demo_ffmpeg_python_filters_stream :: "FFmpegMasterclass \<Rightarrow> string \<Rightarrow> 'n stream" where
  "demo_ffmpeg_python_filters_stream self input_file =
     (let output_file = truediv (output_dir self) ''filtered_python.mp4''
      in OverwriteOutput
           (Output
              [Filter
                 [Filter
                    [Filter
                       [Filter [Input input_file []] ''scale'' [PInt 1280, PInt 720] []]
                       ''fps'' [] [(''fps'', PInt 30)]]
                    ''eq'' [] [(''contrast'', PFloat ''1.1''), (''brightness'', PFloat ''0.05'')]]
                 ''hue'' [] [(''h'', PInt 10)]]
              (path_str output_file)
              [(''vcodec'', PStr ''libx264''), (''crf'', PInt 23), (''acodec'', PStr ''aac'')]))"

definition demo_ffmpeg_python_trim_stream ::
  "FFmpegMasterclass \<Rightarrow> string \<Rightarrow> 'n \<Rightarrow> 'n \<Rightarrow> 'n stream" where
  "demo_ffmpeg_python_trim_stream self input_file start duration =
     (let output_file = truediv (output_dir self) ''trimmed.mp4''
      in OverwriteOutput
           (Output [Input input_file [(''ss'', PNum start), (''t'', PNum duration)]]
              (path_str output_file)
              [(''vcodec'', PStr ''copy''), (''acodec'', PStr ''copy'')]))"

definition demo_ffmpeg_python_concat_stream ::
  "FFmpegMasterclass \<Rightarrow> string list \<Rightarrow> 'n stream" where
  "demo_ffmpeg_python_concat_stream self input_files =
     (let output_file = truediv (output_dir self) ''concatenated.mp4'';
          inputs = map (\<lambda>f. Input f []) input_files
      in OverwriteOutput
           (Output [Concat inputs [(''v'', PInt 1), (''a'', PInt 1)]]
              (path_str output_file)
              [(''vcodec'', PStr ''libx264''), (''acodec'', PStr ''aac'')]))"

definition demo_ffmpeg_python_overlay_stream ::
  "FFmpegMasterclass \<Rightarrow> string \<Rightarrow> string \<Rightarrow> 'n stream" where
  "demo_ffmpeg_python_overlay_stream self base_video overlay_video =
     (let output_file = truediv (output_dir self) ''overlay.mp4'';
          base = Input base_video [];
          overlay = Input overlay_video []
      in OverwriteOutput
           (Output
              [Filter [base, Filter [overlay] ''scale'' [PStr ''iw/4'', PStr ''ih/4''] []]
                 ''overlay'' [] [(''x'', PStr ''W-w-10''), (''y'', PStr ''H-h-10'')]]
              (path_str output_file)
              [(''vcodec'', PStr ''libx264''), (''acodec'', PStr ''aac'')]))"

definition demo_extract_frames_stream ::
  "FFmpegMasterclass \<Rightarrow> string \<Rightarrow> 'n \<Rightarrow> 'n stream" where
  "demo_extract_frames_stream self input_file fps =
     (let frames_dir = truediv (output_dir self) ''frames'';
          output_pattern = truediv frames_dir ''frame_%04d.png''
      in OverwriteOutput
           (Output [Filter [Input input_file []] ''fps'' [] [(''fps'', PNum fps)]]
              (path_str output_pattern)
              [(''format'', PStr ''image2''), (''vcodec'', PStr ''png'')]))"

definition demo_create_video_from_images_stream ::
  "FFmpegMasterclass \<Rightarrow> string \<Rightarrow> 'n \<Rightarrow> 'n stream" where
  "demo_create_video_from_images_stream self image_pattern fps =
     (let output_file = truediv (output_dir self) ''from_images.mp4''
      in OverwriteOutput
           (Output
              [Input image_pattern [(''pattern_type'', PStr ''glob''), (''framerate'', PNum fps)]]
              (path_str output_file)
              [(''vcodec'', PStr ''libx264''), (''pix_fmt'', PStr ''yuv420p''), (''crf'', PInt 20)]))"

definition demo_add_audio_to_video_stream ::
  "FFmpegMasterclass \<Rightarrow> string \<Rightarrow> string \<Rightarrow> 'n stream" where
  "demo_add_audio_to_video_stream self video_file audio_file =
     (let output_file = truediv (output_dir self) ''with_audio.mp4'';
          video = Input video_file [];
          audio = Input audio_file []
      in OverwriteOutput
           (Output [Video video, Audio audio]
              (path_str output_file)
              [(''vcodec'', PStr ''copy''), (''acodec'', PStr ''aac''), (''shortest'', PNone)]))"

definition demo_create_gif_stream ::
  "FFmpegMasterclass \<Rightarrow> string \<Rightarrow> 'n \<Rightarrow> 'n \<Rightarrow> 'n stream" where
  "demo_create_gif_stream self input_file start duration =
     (let output_file = truediv (output_dir self) ''output.gif''
      in OverwriteOutput
           (Output
              [Filter
                 [Filter [Input input_file [(''ss'', PNum start), (''t'', PNum duration)]]
                    ''fps'' [] [(''fps'', PInt 10)]]
                 ''scale'' [PInt 480, PInt (- 1)] []]
              (path_str output_file)
              [(''format'', PStr ''gif'')]))"

definition demo_streaming_hls_stream :: "FFmpegMasterclass \<Rightarrow> string \<Rightarrow> 'n stream" where
  "demo_streaming_hls_stream self input_file =
     (let hls_dir = truediv (output_dir self) ''hls'';
          playlist = truediv hls_dir ''playlist.m3u8''
      in OverwriteOutput
           (Output [Input input_file []]
              (path_str playlist)
              [(''format'', PStr ''hls''),
               (''start_number'', PInt 0),
               (''hls_time'', PInt 10),
               (''hls_list_size'', PInt 0),
               (''vcodec'', PStr ''libx264''),
               (''acodec'', PStr ''aac'')]))"

definition demo_watermark_stream ::
  "FFmpegMasterclass \<Rightarrow> string \<Rightarrow> string \<Rightarrow> 'n stream" where
  "demo_watermark_stream self input_file watermark_image =
     (let output_file = truediv (output_dir self) ''watermarked.mp4'';
          video = Input input_file [];
          watermark = Input watermark_image []
      in OverwriteOutput
           (Output
              [Filter [video, watermark] ''overlay'' [] [(''x'', PStr ''W-w-10''), (''y'', PStr ''10'')]]
              (path_str output_file)
              [(''vcodec'', PStr ''libx264''), (''acodec'', PStr ''copy'')]))"

definition demo_audio_visualization_stream :: "FFmpegMasterclass \<Rightarrow> string \<Rightarrow> 'n stream" where
  "demo_audio_visualization_stream self audio_file =
     (let output_file = truediv (output_dir self) ''audio_viz.mp4''
      in OverwriteOutput
           (Output
              [Filter [Input audio_file []] ''showwaves'' []
                 [(''s'', PStr ''1280x720''), (''mode'', PStr ''line''), (''colors'', PStr ''blue'')]]
              (path_str output_file)
              [(''vcodec'', PStr ''libx264''), (''pix_fmt'', PStr ''yuv420p''), (''acodec'', PStr ''aac'')]))"

section \<open>The operations as one family\<close>

text \<open>
  The fifteen demos that produce an output file, each with the parameters its method
  takes, and the request each one builds: the \<^verbatim>\<open>cmd\<close> list of a subprocess demo or the
  stream description of a library demo.
\<close>

datatype 'n operation =
    CliBasicConversion string
  | CliWithFilters string
  | CliExtractAudio string
  | PythonBasic string
  | PythonFilters string
  | PythonTrim string 'n 'n
  | PythonConcat "string list"
  | PythonOverlay string string
  | ExtractFrames string 'n
  | CreateVideoFromImages string 'n
  | AddAudioToVideo string string
  | CreateGif string 'n 'n
  | StreamingHls string
  | Watermark string string
  | AudioVisualization string

datatype 'n request =
    Cmd "string list"
  | Spec "'n stream"

fun request_of :: "FFmpegMasterclass \<Rightarrow> 'n operation \<Rightarrow> 'n request" where
  "request_of self (CliBasicConversion input_file) =
     Cmd (demo_cli_basic_conversion_cmd self input_file)"
| "request_of self (CliWithFilters input_file) =
     Cmd (demo_cli_with_filters_cmd self input_file)"
| "request_of self (CliExtractAudio input_file) =
     Cmd (demo_cli_extract_audio_cmd self input_file)"
| "request_of self (PythonBasic input_file) =
     Spec (demo_ffmpeg_python_basic_stream self input_file)"
| "request_of self (PythonFilters input_file) =
     Spec (demo_ffmpeg_python_filters_stream self input_file)"
| "request_of self (PythonTrim input_file start duration) =
     Spec (demo_ffmpeg_python_trim_stream self input_file start duration)"
| "request_of self (PythonConcat input_files) =
     Spec (demo_ffmpeg_python_concat_stream self input_files)"
| "request_of self (PythonOverlay base_video overlay_video) =
     Spec (demo_ffmpeg_python_overlay_stream self base_video overlay_video)"
| "request_of self (ExtractFrames input_file fps) =
     Spec (demo_extract_frames_stream self input_file fps)"
| "request_of self (CreateVideoFromImages image_pattern fps) =
     Spec (demo_create_video_from_images_stream self image_pattern fps)"
| "request_of self (AddAudioToVideo video_file audio_file) =
     Spec (demo_add_audio_to_video_stream self video_file audio_file)"
| "request_of self (CreateGif input_file start duration) =
     Spec (demo_create_gif_stream self input_file start duration)"
| "request_of self (StreamingHls input_file) =
     Spec (demo_streaming_hls_stream self input_file)"
| "request_of self (Watermark input_file watermark_image) =
     Spec (demo_watermark_stream self input_file watermark_image)"
| "request_of self (AudioVisualization audio_file) =
     Spec (demo_audio_visualization_stream self audio_file)"


text \<open>
  The numeric parameters the caller passes to an operation, each with the option name
  the operation files it under.
\<close>

fun numeric_params :: "'n operation \<Rightarrow> (string \<times> 'n) list" where
  "numeric_params (PythonTrim input_file start duration) = [(''ss'', start), (''t'', duration)]"
| "numeric_params (ExtractFrames input_file fps) = [(''fps'', fps)]"
| "numeric_params (CreateVideoFromImages image_pattern fps) = [(''framerate'', fps)]"
| "numeric_params (CreateGif input_file start duration) = [(''ss'', start), (''t'', duration)]"
| "numeric_params _ = []"

subsection \<open>Reading a request\<close>




text \<open>The caller's numbers in a list of values, and in a stream description.\<close>

fun kwargs_numbers :: "'n kwargs \<Rightarrow> (string \<times> 'n) list" where
  "kwargs_numbers [] = []"
| "kwargs_numbers ((k, PNum n) # kw) = (k, n) # kwargs_numbers kw"
| "kwargs_numbers (_ # kw) = kwargs_numbers kw"

fun args_numbers :: "string \<Rightarrow> 'n pyval list \<Rightarrow> (string \<times> 'n) list" where
  "args_numbers name [] = []"
| "args_numbers name (PNum n # args) = (name, n) # args_numbers name args"
| "args_numbers name (_ # args) = args_numbers name args"

fun stream_numbers :: "'n stream \<Rightarrow> (string \<times> 'n) list" where
  "stream_numbers (Input filename kw) = kwargs_numbers kw"
| "stream_numbers (Filter ss name args kw) =
     concat (map stream_numbers ss) @ args_numbers name args @ kwargs_numbers kw"
| "stream_numbers (Concat ss kw) = concat (map stream_numbers ss) @ kwargs_numbers kw"
| "stream_numbers (Video s) = stream_numbers s"
| "stream_numbers (Audio s) = stream_numbers s"
| "stream_numbers (Output ss filename kw) = concat (map stream_numbers ss) @ kwargs_numbers kw"
| "stream_numbers (OverwriteOutput s) = stream_numbers s"

fun request_numbers :: "'n request \<Rightarrow> (string \<times> 'n) list" where
  "request_numbers (Cmd c) = []"
| "request_numbers (Spec s) = stream_numbers s"

text \<open>
  The overwrite policy of a request: \<^verbatim>\<open>-y\<close> right before the output file that ends a
  command, or \<^verbatim>\<open>.overwrite_output()\<close> as the outermost call of a description.
\<close>

fun overwrites :: "'n request \<Rightarrow> bool" where
  "overwrites (Cmd c) = (2 \<le> length c \<and> c ! (length c - 2) = ''-y'')"
| "overwrites (Spec (OverwriteOutput s)) = True"
| "overwrites (Spec _) = False"

section \<open>From a library request to the argument sequence\<close>

text \<open>
  Modelled from the spec: the translation of a library request into the argument
  sequence that the external tool receives. The library demos pass their request to
  the wrapper library, which builds the sequence and starts the process; the library is
  a dependency and its code is not among the sources. The spec asks that the sequence
  follow the tool's grammar (input and output flags, filter graph expressions) and
  render each numeric value literally and unchanged. The layout below is the
  wrapper library's, for a request with one input, a chain of filters with one
  upstream each, and one output:
  \<^item> the options of the input, sorted by name, each as \<^verbatim>\<open>-name\<close> followed by the text of
    its value (nothing follows for \<^verbatim>\<open>None\<close>), then \<^verbatim>\<open>-i\<close> and the file;
  \<^item> if there are filters, \<^verbatim>\<open>-filter_complex\<close> and the filter graph: the filters in order,
    joined by \<^verbatim>\<open>;\<close>, each as its input label, its name, \<^verbatim>\<open>=\<close> and its positional and
    named parameters joined by \<^verbatim>\<open>:\<close>, and its output label \<^verbatim>\<open>[s0]\<close>, \<^verbatim>\<open>[s1]\<close>, ...; the
    characters that are special in a filter graph are escaped with a backslash;
  \<^item> \<^verbatim>\<open>-map\<close> and the label of the last filter, if there are filters;
  \<^item> the options of the output: \<^verbatim>\<open>format\<close> as \<^verbatim>\<open>-f\<close>, \<^verbatim>\<open>video_bitrate\<close> as \<^verbatim>\<open>-b:v\<close>,
    \<^verbatim>\<open>audio_bitrate\<close> as \<^verbatim>\<open>-b:a\<close>, the others sorted by name; then the output file;
  \<^item> \<^verbatim>\<open>-y\<close> for \<^verbatim>\<open>.overwrite_output()\<close>.
  A request of another shape (several inputs, a concatenation, a stream selector, an
  input with a \<^verbatim>\<open>format\<close> or \<^verbatim>\<open>video_size\<close> option, an output with \<^verbatim>\<open>video_size\<close>) is not
  covered and gives \<open>None\<close>.

  The text of a value is what \<^verbatim>\<open>str\<close> gives: a string is itself, an integer is written
  in decimal, a float literal of the source is written as in the source, and the text of
  a number supplied by the caller is the parameter \<open>py_str\<close>.
\<close>

definition digit_char :: "nat \<Rightarrow> char" where
  "digit_char d = ''0123456789'' ! d"

function str_nat :: "nat \<Rightarrow> string" where
  "str_nat n =
     (if n < 10 then [digit_char n]
      else str_nat (n div 10) @ [digit_char (n mod 10)])"
  by pat_completeness auto
termination
  by (relation "measure id") auto

declare str_nat.simps [simp del]

definition str_int :: "int \<Rightarrow> string" where
  "str_int i = (if i < 0 then ''-'' else []) @ str_nat (nat \<bar>i\<bar>)"

definition format_value :: "('n \<Rightarrow> string) \<Rightarrow> 'n pyval \<Rightarrow> string" where
  "format_value py_str v =
     (case v of
        PStr s \<Rightarrow> s
      | PInt i \<Rightarrow> str_int i
      | PFloat literal \<Rightarrow> literal
      | PNone \<Rightarrow> ''None''
      | PNum n \<Rightarrow> py_str n)"

text \<open>Sorting options by name: names are compared character by character.\<close>

fun key_less :: "string \<Rightarrow> string \<Rightarrow> bool" where
  "key_less [] [] = False"
| "key_less [] (y # ys) = True"
| "key_less (x # xs) [] = False"
| "key_less (x # xs) (y # ys) =
     ((of_char x :: nat) < of_char y \<or> (x = y \<and> key_less xs ys))"

fun insert_item :: "string \<times> 'a \<Rightarrow> (string \<times> 'a) list \<Rightarrow> (string \<times> 'a) list" where
  "insert_item kv [] = [kv]"
| "insert_item kv (x # xs) =
     (if key_less (fst x) (fst kv) then x # insert_item kv xs else kv # x # xs)"

definition sorted_items :: "(string \<times> 'a) list \<Rightarrow> (string \<times> 'a) list" where
  "sorted_items kw = foldr insert_item kw []"

definition convert_kwargs_to_cmd_line_args :: "('n \<Rightarrow> string) \<Rightarrow> 'n kwargs \<Rightarrow> string list" where
  "convert_kwargs_to_cmd_line_args py_str kw =
     concat (map (\<lambda>(k, v). (''-'' @ k) # (case v of PNone \<Rightarrow> [] | _ \<Rightarrow> [format_value py_str v]))
               (sorted_items kw))"

definition remove_keys :: "string list \<Rightarrow> 'n kwargs \<Rightarrow> 'n kwargs" where
  "remove_keys ks kw = filter (\<lambda>(k, v). k \<notin> set ks) kw"

definition get_input_args :: "('n \<Rightarrow> string) \<Rightarrow> string \<Rightarrow> 'n kwargs \<Rightarrow> string list option" where
  "get_input_args py_str filename kw =
     (if map_of kw ''format'' \<noteq> None \<or> map_of kw ''video_size'' \<noteq> None then None
      else Some (convert_kwargs_to_cmd_line_args py_str kw @ [''-i'', filename]))"

text \<open>Escaping: a backslash before each of the given characters.\<close>

definition escape_chars :: "string \<Rightarrow> string \<Rightarrow> string" where
  "escape_chars text chars = concat (map (\<lambda>c. if c \<in> set chars then [CHR 0x5C, c] else [c]) text)"

definition parameter_chars :: string where
  "parameter_chars = [CHR 0x5C, CHR 0x27, CHR ''='', CHR '':'']"

definition graph_chars :: string where
  "graph_chars = [CHR 0x5C, CHR 0x27, CHR ''['', CHR '']'', CHR '','', CHR '';'']"

text \<open>
  The text of one filter. Positional parameters are escaped twice and named ones once
  before the whole text is escaped for the graph.
\<close>

definition get_filter ::
  "('n \<Rightarrow> string) \<Rightarrow> string \<Rightarrow> 'n pyval list \<Rightarrow> 'n kwargs \<Rightarrow> string" where
  "get_filter py_str name args kw =
     (let arg_params =
            map (\<lambda>x. escape_chars (escape_chars (format_value py_str x) parameter_chars)
                        parameter_chars) args;
          out_kwargs =
            map (\<lambda>(k, v). (escape_chars k parameter_chars,
                            escape_chars (format_value py_str v) parameter_chars)) kw;
          kwarg_params = map (\<lambda>(k, v). k @ ''='' @ v) (sorted_items out_kwargs);
          params = arg_params @ kwarg_params;
          params_text =
            escape_chars name parameter_chars
            @ (if params = [] then [] else ''='' @ join '':'' params)
      in escape_chars params_text graph_chars)"

text \<open>
  The filters of a chain, numbered from 0: the first reads the input \<^verbatim>\<open>[0]\<close>, each later
  one the label of the one before it.
\<close>

fun filter_specs ::
  "('n \<Rightarrow> string) \<Rightarrow> nat \<Rightarrow> (string \<times> 'n pyval list \<times> 'n kwargs) list \<Rightarrow> string list" where
  "filter_specs py_str i [] = []"
| "filter_specs py_str i ((name, args, kw) # rest) =
     ((if i = 0 then ''[0]'' else ''[s'' @ str_nat (i - 1) @ '']'')
        @ get_filter py_str name args kw
        @ ''[s'' @ str_nat i @ '']'')
     # filter_specs py_str (Suc i) rest"

definition get_filter_args ::
  "('n \<Rightarrow> string) \<Rightarrow> (string \<times> 'n pyval list \<times> 'n kwargs) list \<Rightarrow> string list" where
  "get_filter_args py_str filters =
     (if filters = [] then []
      else [''-filter_complex'', join '';'' (filter_specs py_str 0 filters)])"

definition option_args :: "('n \<Rightarrow> string) \<Rightarrow> string \<Rightarrow> string \<Rightarrow> 'n kwargs \<Rightarrow> string list" where
  "option_args py_str flag key kw =
     (case map_of kw key of None \<Rightarrow> [] | Some v \<Rightarrow> [flag, format_value py_str v])"

definition get_output_args ::
  "('n \<Rightarrow> string) \<Rightarrow> nat \<Rightarrow> string \<Rightarrow> 'n kwargs \<Rightarrow> string list option" where
  "get_output_args py_str n_filters filename kw =
     (if map_of kw ''video_size'' \<noteq> None then None
      else Some
        ((if n_filters = 0 then [] else [''-map'', ''[s'' @ str_nat (n_filters - 1) @ '']''])
         @ option_args py_str ''-f'' ''format'' kw
         @ option_args py_str ''-b:v'' ''video_bitrate'' kw
         @ option_args py_str ''-b:a'' ''audio_bitrate'' kw
         @ convert_kwargs_to_cmd_line_args py_str
             (remove_keys [''format'', ''video_bitrate'', ''audio_bitrate''] kw)
         @ [filename]))"

text \<open>The input and the filters of a chain, the filters in the order they are applied.\<close>

fun chain_of ::
  "'n stream \<Rightarrow> (string \<times> 'n kwargs \<times> (string \<times> 'n pyval list \<times> 'n kwargs) list) option" where
  "chain_of (Input filename kw) = Some (filename, kw, [])"
| "chain_of (Filter [s] name args kw) =
     (case chain_of s of
        None \<Rightarrow> None
      | Some (filename, input_kw, filters) \<Rightarrow> Some (filename, input_kw, filters @ [(name, args, kw)]))"
| "chain_of _ = None"

text \<open>
  Modelled from the spec: the argument sequence of a request, the command name left
  out, in the layout described at the head of this section.
\<close>

fun get_args :: "('n \<Rightarrow> string) \<Rightarrow> 'n stream \<Rightarrow> string list option" where
  "get_args py_str (OverwriteOutput (Output [s] filename kw)) =
     (case chain_of s of
        None \<Rightarrow> None
      | Some (input_file, input_kw, filters) \<Rightarrow>
          (case get_input_args py_str input_file input_kw of
             None \<Rightarrow> None
           | Some input_args \<Rightarrow>
               (case get_output_args py_str (length filters) filename kw of
                  None \<Rightarrow> None
                | Some output_args \<Rightarrow>
                    Some (input_args @ get_filter_args py_str filters @ output_args @ [''-y'']))))"
| "get_args py_str _ = None"

section \<open>Running a command\<close>

text \<open>
  A run acts on the console, on the directories it creates itself, and on the external
  processes it starts. The console is the list of printed strings, one per \<^verbatim>\<open>print\<close>
  call (the newline that \<^verbatim>\<open>print\<close> adds is left out). The file system records, for each
  path, whether it is a directory or a file; paths are identified as pathlib values and
  permissions are not modelled. The files an external process reads or writes are not
  part of the state: \<open>procs\<close> logs the commands handed to \<^verbatim>\<open>subprocess.run\<close> instead.
\<close>

datatype kind = Dir | File

type_synonym filesystem = "path \<rightharpoonup> kind"

record world =
  console :: "string list"
  fs :: filesystem
  procs :: "string list list"

text \<open>Exceptions that leave a method.\<close>

datatype exn =
    FileNotFoundError
  | FileExistsError
  | NotADirectoryError
  | KeyError string
  | ValueError
  | TypeError
  | ZeroDivisionError
  | UnicodeDecodeError
  | OtherException string

text \<open>
  What \<^verbatim>\<open>subprocess.run\<close> does with a command, as far as the source tells the cases
  apart: the executable is not found (\<^verbatim>\<open>FileNotFoundError\<close>, with its message), some
  other exception is raised (with its message), or the process runs to its end with an
  exit status and the captured output. With \<^verbatim>\<open>text=True\<close> the captured output is text
  already, and a failure to decode it is one of the other exceptions of the call.
\<close>

datatype run_outcome =
    NotFound string
  | OtherError string
  | Completed int string string

text \<open>
  \<^verbatim>\<open>bytes.decode()\<close> decodes UTF-8 strictly. Bytes and text are both byte strings here,
  text holding UTF-8, so decoding returns its argument when that is well-formed UTF-8
  (no overlong forms, no surrogates, nothing above U+10FFFF) and raises
  \<^verbatim>\<open>UnicodeDecodeError\<close> otherwise.
\<close>

definition in_range :: "nat \<Rightarrow> nat \<Rightarrow> char \<Rightarrow> bool" where
  "in_range lo hi c = (lo \<le> of_char c \<and> of_char c \<le> hi)"

definition continuation :: "char \<Rightarrow> bool" where
  "continuation c = in_range 0x80 0xBF c"

definition second_of_three :: "char \<Rightarrow> char \<Rightarrow> bool" where
  "second_of_three b c =
     (if of_char b = (0xE0 :: nat) then in_range 0xA0 0xBF c
      else if of_char b = (0xED :: nat) then in_range 0x80 0x9F c
      else continuation c)"

definition second_of_four :: "char \<Rightarrow> char \<Rightarrow> bool" where
  "second_of_four b c =
     (if of_char b = (0xF0 :: nat) then in_range 0x90 0xBF c
      else if of_char b = (0xF4 :: nat) then in_range 0x80 0x8F c
      else continuation c)"

fun valid_utf8 :: "string \<Rightarrow> bool" where
  "valid_utf8 [] = True"
| "valid_utf8 (b # bs) =
     (if in_range 0x00 0x7F b then valid_utf8 bs
      else if in_range 0xC2 0xDF b then
        (case bs of c1 # rest \<Rightarrow> continuation c1 \<and> valid_utf8 rest | _ \<Rightarrow> False)
      else if in_range 0xE0 0xEF b then
        (case bs of
           c1 # c2 # rest \<Rightarrow> second_of_three b c1 \<and> continuation c2 \<and> valid_utf8 rest
         | _ \<Rightarrow> False)
      else if in_range 0xF0 0xF4 b then
        (case bs of
           c1 # c2 # c3 # rest \<Rightarrow>
             second_of_four b c1 \<and> continuation c2 \<and> continuation c3 \<and> valid_utf8 rest
         | _ \<Rightarrow> False)
      else False)"

definition decode :: "string \<Rightarrow> exn + string" where
  "decode b = (if valid_utf8 b then Inr b else Inl UnicodeDecodeError)"

text \<open>
  The environment of a run: the working directory, the outcome of each command, and the
  text of a \<^verbatim>\<open>CalledProcessError\<close>, which the standard library composes from the command
  and the exit status.
\<close>

record env =
  cwd :: path
  run :: "string list \<Rightarrow> run_outcome"
  called_process_error_str :: "string list \<Rightarrow> int \<Rightarrow> string"

definition print :: "string \<Rightarrow> world \<Rightarrow> world" where
  "print s w = w\<lparr>console := console w @ [s]\<rparr>"

fun prints :: "string list \<Rightarrow> world \<Rightarrow> world" where
  "prints [] w = w"
| "prints (s # ss) w = prints ss (print s w)"

definition subprocess_run :: "env \<Rightarrow> string list \<Rightarrow> world \<Rightarrow> run_outcome \<times> world" where
  "subprocess_run e cmd w = (run e cmd, w\<lparr>procs := procs w @ [cmd]\<rparr>)"

definition nl :: string where
  "nl = [CHR 0x0A]"

definition check_mark :: string where
  "check_mark = [CHR 0xE2, CHR 0x9C, CHR 0x93]"

definition cross_mark :: string where
  "cross_mark = [CHR 0xE2, CHR 0x9C, CHR 0x97]"

definition warning_sign :: string where
  "warning_sign = [CHR 0xE2, CHR 0x9A, CHR 0xA0]"

definition rule80 :: string where
  "rule80 = replicate 80 (CHR ''='')"

definition demo_cli_basic_conversion ::
  "env \<Rightarrow> FFmpegMasterclass \<Rightarrow> string \<Rightarrow> world \<Rightarrow> exn option \<times> world" where
  "demo_cli_basic_conversion e self input_file w =
     (let w = prints [rule80, ''DEMO 1: Basic CLI Conversion (MP4 to WebM)'', rule80] w;
          output_file = truediv (output_dir self) ''converted_basic.webm'';
          cmd = demo_cli_basic_conversion_cmd self input_file;
          w = print (''Command: '' @ join '' '' cmd @ nl) w
      in case subprocess_run e cmd w of
           (Completed returncode out err, w) \<Rightarrow>
             (None,
              print []
                (if returncode = 0
                 then print (check_mark @ '' Success! Output: '' @ path_str output_file) w
                 else print (cross_mark @ '' Error: '' @ err) w))
         | (NotFound msg, w) \<Rightarrow>
             (None,
              print [] (print (cross_mark @ '' ffmpeg not found! Please install ffmpeg first.'') w))
         | (OtherError msg, w) \<Rightarrow>
             (None, print [] (print (cross_mark @ '' Error: '' @ msg) w)))"

definition demo_cli_with_filters ::
  "env \<Rightarrow> FFmpegMasterclass \<Rightarrow> string \<Rightarrow> world \<Rightarrow> exn option \<times> world" where
  "demo_cli_with_filters e self input_file w =
     (let w = prints [rule80, ''DEMO 2: CLI with Complex Filters'', rule80] w;
          output_file = truediv (output_dir self) ''filtered_cli.mp4'';
          cmd = demo_cli_with_filters_cmd self input_file;
          w = prints [''Filter chain:'',
                      ''  1. Scale to 1280x720'',
                      ''  2. Add text overlay with box'',
                      ''  3. Adjust contrast and brightness'',
                      nl @ ''Command: '' @ join '' '' cmd @ nl] w
      in case subprocess_run e cmd w of
           (Completed returncode out err, w) \<Rightarrow>
             (if returncode = 0
              then (None, print (check_mark @ '' Success! Output: '' @ path_str output_file @ nl) w)
              else (case decode err of
                      Inl raised \<Rightarrow> (Some raised, w)
                    | Inr text \<Rightarrow> (None, print (cross_mark @ '' Error: '' @ text @ nl) w)))
         | (NotFound msg, w) \<Rightarrow> (None, print (cross_mark @ '' ffmpeg not found!'' @ nl) w)
         | (OtherError msg, w) \<Rightarrow> (Some (OtherException msg), w))"

definition demo_cli_extract_audio ::
  "env \<Rightarrow> FFmpegMasterclass \<Rightarrow> string \<Rightarrow> world \<Rightarrow> exn option \<times> world" where
  "demo_cli_extract_audio e self input_file w =
     (let w = prints [rule80, ''DEMO 3: Extract Audio Track'', rule80] w;
          output_file = truediv (output_dir self) ''extracted_audio.mp3'';
          cmd = demo_cli_extract_audio_cmd self input_file;
          w = print (''Command: '' @ join '' '' cmd @ nl) w
      in case subprocess_run e cmd w of
           (Completed returncode out err, w) \<Rightarrow>
             (if returncode = 0
              then (None, print (check_mark @ '' Success! Output: '' @ path_str output_file @ nl) w)
              else (None,
                    print (cross_mark @ '' Error: '' @ called_process_error_str e cmd returncode @ nl) w))
         | (NotFound msg, w) \<Rightarrow> (None, print (cross_mark @ '' Error: '' @ msg @ nl) w)
         | (OtherError msg, w) \<Rightarrow> (None, print (cross_mark @ '' Error: '' @ msg @ nl) w))"

section \<open>The constructor, the installation check and the main function\<close>

text \<open>
  \<^verbatim>\<open>Path.mkdir(exist_ok=True)\<close> is called without \<^verbatim>\<open>parents=True\<close>. The system call
  fails when the path exists already, when the parent is missing, or when the parent is
  not a directory; pathlib lets \<^verbatim>\<open>FileNotFoundError\<close> through and forgives the other
  errors when \<^verbatim>\<open>exist_ok\<close> is set and the path is a directory.
\<close>

definition parent :: "path \<Rightarrow> path" where
  "parent p = \<lparr>anchor = anchor p, parts = butlast (parts p)\<rparr>"

definition os_mkdir :: "filesystem \<Rightarrow> path \<Rightarrow> exn + filesystem" where
  "os_mkdir f p =
     (case f p of
        Some k \<Rightarrow> Inl FileExistsError
      | None \<Rightarrow>
          (case f (parent p) of
             None \<Rightarrow> Inl FileNotFoundError
           | Some File \<Rightarrow> Inl NotADirectoryError
           | Some Dir \<Rightarrow> Inr (f(p \<mapsto> Dir))))"

definition is_dir :: "filesystem \<Rightarrow> path \<Rightarrow> bool" where
  "is_dir f p = (f p = Some Dir)"

definition mkdir :: "filesystem \<Rightarrow> path \<Rightarrow> bool \<Rightarrow> exn + filesystem" where
  "mkdir f p exist_ok =
     (case os_mkdir f p of
        Inr f' \<Rightarrow> Inr f'
      | Inl FileNotFoundError \<Rightarrow> Inl FileNotFoundError
      | Inl err \<Rightarrow> (if \<not> exist_ok \<or> \<not> is_dir f p then Inl err else Inr f))"

text \<open>\<^verbatim>\<open>Path.absolute()\<close>: a relative path is put under the working directory.\<close>

definition absolute :: "env \<Rightarrow> path \<Rightarrow> path" where
  "absolute e p =
     (if anchor p \<noteq> [] then p
      else \<lparr>anchor = anchor (cwd e), parts = parts (cwd e) @ parts p\<rparr>)"

text \<open>\<^verbatim>\<open>FFmpegMasterclass.__init__(output_dir)\<close>.\<close>

definition FFmpegMasterclass_init ::
  "env \<Rightarrow> string \<Rightarrow> world \<Rightarrow> (exn + FFmpegMasterclass) \<times> world" where
  "FFmpegMasterclass_init e dir w =
     (let self = \<lparr>output_dir = Path dir\<rparr>
      in case mkdir (fs w) (output_dir self) True of
           Inl err \<Rightarrow> (Inl err, w)
         | Inr f' \<Rightarrow>
             (Inr self,
              print (''Output directory: '' @ path_str (absolute e (output_dir self)) @ nl)
                (w\<lparr>fs := f'\<rparr>)))"

definition check_ffmpeg_installed ::
  "env \<Rightarrow> FFmpegMasterclass \<Rightarrow> world \<Rightarrow> (exn + bool) \<times> world" where
  "check_ffmpeg_installed e self w =
     (case subprocess_run e [''ffmpeg'', ''-version''] w of
        (Completed returncode out err, w) \<Rightarrow> (Inr (returncode = 0), w)
      | (NotFound msg, w) \<Rightarrow> (Inr False, w)
      | (OtherError msg, w) \<Rightarrow> (Inl (OtherException msg), w))"

definition not_installed_lines :: "string list" where
  "not_installed_lines =
     [warning_sign @ '' FFmpeg is not installed or not in PATH!'',
      nl @ ''Installation instructions:'',
      ''  Ubuntu/Debian: sudo apt install ffmpeg'',
      ''  macOS: brew install ffmpeg'',
      ''  Windows: Download from https://ffmpeg.org/download.html'']"

definition usage_lines :: "string list" where
  "usage_lines =
     [check_mark @ '' FFmpeg is installed and ready!'' @ nl,
      ''USAGE EXAMPLES:'',
      replicate 80 (CHR ''-''),
      [],
      ''# Basic conversion'',
      ''masterclass.demo_cli_basic_conversion('input.mp4')'',
      [],
      ''# Apply filters'',
      ''masterclass.demo_cli_with_filters('input.mp4')'',
      [],
      ''# Extract audio'',
      ''masterclass.demo_cli_extract_audio('input.mp4')'',
      [],
      ''# Using ffmpeg-python library'',
      ''masterclass.demo_ffmpeg_python_basic('input.mp4')'',
      [],
      ''# Probe video metadata'',
      ''masterclass.demo_ffmpeg_python_probe('input.mp4')'',
      [],
      ''# Apply filter chain'',
      ''masterclass.demo_ffmpeg_python_filters('input.mp4')'',
      [],
      ''# Trim video'',
      ''masterclass.demo_ffmpeg_python_trim('input.mp4', start=5, duration=10)'',
      [],
      ''# Concatenate videos'',
      ''masterclass.demo_ffmpeg_python_concat(['vid1.mp4', 'vid2.mp4'])'',
      [],
      ''# Picture-in-picture overlay'',
      ''masterclass.demo_ffmpeg_python_overlay('base.mp4', 'overlay.mp4')'',
      [],
      ''# Extract frames'',
      ''masterclass.demo_extract_frames('input.mp4', fps=1)'',
      [],
      ''# Create video from images'',
      ''masterclass.demo_create_video_from_images('frames/*.png', fps=30)'',
      [],
      ''# Add/replace audio'',
      ''masterclass.demo_add_audio_to_video('video.mp4', 'audio.mp3')'',
      [],
      ''# Create GIF'',
      ''masterclass.demo_create_gif('input.mp4', start=10, duration=5)'',
      [],
      ''# Create HLS streaming segments'',
      ''masterclass.demo_streaming_hls('input.mp4')'',
      [],
      ''# Add watermark'',
      ''masterclass.demo_watermark('input.mp4', 'logo.png')'',
      [],
      ''# Audio visualization'',
      ''masterclass.demo_audio_visualization('audio.mp3')'',
      [],
      rule80,
      nl @ ''To run these demos, provide your own video files and uncomment'',
      ''the desired demo calls in the main() function.'',
      [],
      ''All outputs will be saved to: ./ffmpeg_output/'',
      rule80 @ nl]"

definition main :: "env \<Rightarrow> world \<Rightarrow> exn option \<times> world" where
  "main e w =
     (let w = prints [nl @ rule80, replicate 25 (CHR '' '') @ ''FFmpeg Masterclass'', rule80 @ nl] w
      in case FFmpegMasterclass_init e ''./ffmpeg_output'' w of
           (Inl err, w) \<Rightarrow> (Some err, w)
         | (Inr masterclass, w) \<Rightarrow>
             (case check_ffmpeg_installed e masterclass w of
                (Inl err, w) \<Rightarrow> (Some err, w)
              | (Inr installed, w) \<Rightarrow>
                  (if \<not> installed then (None, prints not_installed_lines w)
                   else (None, prints usage_lines w))))"

section \<open>Probing\<close>

text \<open>
  \<^verbatim>\<open>ffmpeg.probe\<close> returns the parsed JSON that the probe tool prints: a \<^verbatim>\<open>format\<close> object
  and a list of \<^verbatim>\<open>streams\<close> objects. An object is a list of key and value pairs with
  distinct keys. The call returns this data, or raises \<^verbatim>\<open>ffmpeg.Error\<close>, which carries
  the captured output and diagnostics of the tool, or raises another exception (the
  probe tool is not installed, its output is not JSON).
\<close>

datatype jval =
    JStr string
  | JInt int
  | JObj "(string \<times> jval) list"

type_synonym dict = "(string \<times> jval) list"

record probe_data =
  format :: dict
  streams :: "dict list"

datatype probe_outcome =
    ProbeOk probe_data
  | ProbeError string string
  | ProbeRaises exn

text \<open>
  The value of an evaluated expression: the quotient of two integers, or any other
  object, given by a description.
\<close>

datatype pyobj =
    Quot nat nat
  | Obj string

text \<open>
  What the probing methods take from outside: the probe result for a file; the text that
  the format specifications used by the demo produce (\<^verbatim>\<open>{v}\<close>, \<^verbatim>\<open>{float(v):.2f}\<close>,
  \<^verbatim>\<open>{int(v) / 1024 / 1024:.2f}\<close>, \<^verbatim>\<open>{int(v) / 1000:.0f}\<close> and \<^verbatim>\<open>{x:.2f}\<close>), each of which
  may raise; and the builtin \<^verbatim>\<open>eval\<close> on the strings that are not a fraction of two
  integer literals, which may do anything to the world before it returns or raises.
\<close>

record probe_env =
  ffmpeg_probe :: "string \<Rightarrow> probe_outcome"
  show_value :: "jval \<Rightarrow> string"
  show_seconds :: "jval \<Rightarrow> exn + string"
  show_megabytes :: "jval \<Rightarrow> exn + string"
  show_kbps :: "jval \<Rightarrow> exn + string"
  show_fps :: "pyobj \<Rightarrow> exn + string"
  eval_other :: "string \<Rightarrow> world \<Rightarrow> (exn + pyobj) \<times> world"

text \<open>\<^verbatim>\<open>d[k]\<close> and \<^verbatim>\<open>d.get(k, default)\<close>.\<close>

definition lookup :: "dict \<Rightarrow> string \<Rightarrow> exn + jval" where
  "lookup d k = (case map_of d k of None \<Rightarrow> Inl (KeyError k) | Some v \<Rightarrow> Inr v)"

definition get :: "dict \<Rightarrow> string \<Rightarrow> jval \<Rightarrow> jval" where
  "get d k dflt = (case map_of d k of None \<Rightarrow> dflt | Some v \<Rightarrow> v)"

definition bind :: "exn + 'a \<Rightarrow> ('a \<Rightarrow> exn + 'b) \<Rightarrow> exn + 'b" where
  "bind r f = (case r of Inl err \<Rightarrow> Inl err | Inr v \<Rightarrow> f v)"

text \<open>
  \<^verbatim>\<open>next((s for s in streams if s["codec_type"] == t), None)\<close>: the generator stops at the
  first match, and a stream without the key before it raises.
\<close>

fun first_stream :: "string \<Rightarrow> dict list \<Rightarrow> exn + dict option" where
  "first_stream t [] = Inr None"
| "first_stream t (s # ss) =
     bind (lookup s ''codec_type'')
       (\<lambda>v. if v = JStr t then Inr (Some s) else first_stream t ss)"

text \<open>\<^verbatim>\<open>[s for s in streams if s["codec_type"] == t]\<close>.\<close>

fun streams_of_type :: "string \<Rightarrow> dict list \<Rightarrow> exn + dict list" where
  "streams_of_type t [] = Inr []"
| "streams_of_type t (s # ss) =
     bind (lookup s ''codec_type'')
       (\<lambda>v. bind (streams_of_type t ss)
          (\<lambda>rest. Inr (if v = JStr t then s # rest else rest)))"

subsection \<open>Evaluating the frame rate\<close>

text \<open>
  The probe tool prints a frame rate as two integers around a slash. On such a string
  \<^verbatim>\<open>eval\<close> divides, or raises \<^verbatim>\<open>ZeroDivisionError\<close>, and touches nothing. An integer literal
  is a run of digits without a leading zero, or zeros only; at most ten digits are
  recognised here. Every other string is left to \<open>eval_other\<close>.
\<close>

definition is_digit :: "char \<Rightarrow> bool" where
  "is_digit c = (c \<in> set ''0123456789'')"

definition nat_of_digits :: "string \<Rightarrow> nat" where
  "nat_of_digits s = foldl (\<lambda>n c. 10 * n + (of_char c - 48)) 0 s"

definition int_literal :: "string \<Rightarrow> nat option" where
  "int_literal s =
     (if s \<noteq> [] \<and> length s \<le> 10 \<and> list_all is_digit s
         \<and> (hd s \<noteq> CHR ''0'' \<or> list_all (\<lambda>c. c = CHR ''0'') s)
      then Some (nat_of_digits s) else None)"

definition parse_fraction :: "string \<Rightarrow> (nat \<times> nat) option" where
  "parse_fraction s =
     (case split_on (CHR ''/'') s of
        [a, b] \<Rightarrow>
          (case int_literal a of
             None \<Rightarrow> None
           | Some n \<Rightarrow> (case int_literal b of None \<Rightarrow> None | Some d \<Rightarrow> Some (n, d)))
      | _ \<Rightarrow> None)"

definition py_eval :: "probe_env \<Rightarrow> jval \<Rightarrow> world \<Rightarrow> (exn + pyobj) \<times> world" where
  "py_eval pe v w =
     (case v of
        JStr s \<Rightarrow>
          (case parse_fraction s of
             Some (n, d) \<Rightarrow> (if d = 0 then (Inl ZeroDivisionError, w) else (Inr (Quot n d), w))
           | None \<Rightarrow> eval_other pe s w)
      | _ \<Rightarrow> (Inl TypeError, w))"

subsection \<open>The probe demo and the info utility\<close>

text \<open>A statement that prints a line, unless building the line raises.\<close>

definition print_line :: "exn + string \<Rightarrow> world \<Rightarrow> exn option \<times> world" where
  "print_line r w = (case r of Inl err \<Rightarrow> (Some err, w) | Inr s \<Rightarrow> (None, print s w))"

text \<open>Statements in sequence, up to the first exception.\<close>

fun run_all :: "(world \<Rightarrow> exn option \<times> world) list \<Rightarrow> world \<Rightarrow> exn option \<times> world" where
  "run_all [] w = (None, w)"
| "run_all (a # as) w =
     (case a w of
        (Some err, w') \<Rightarrow> (Some err, w')
      | (None, w') \<Rightarrow> run_all as w')"

definition print_fps :: "probe_env \<Rightarrow> dict \<Rightarrow> world \<Rightarrow> exn option \<times> world" where
  "print_fps pe video_stream w =
     (case py_eval pe (get video_stream ''r_frame_rate'' (JStr ''0/1'')) w of
        (Inl err, w') \<Rightarrow> (Some err, w')
      | (Inr x, w') \<Rightarrow> print_line (bind (show_fps pe x) (\<lambda>t. Inr (''  FPS: '' @ t))) w')"

definition video_lines :: "probe_env \<Rightarrow> dict \<Rightarrow> (world \<Rightarrow> exn option \<times> world) list" where
  "video_lines pe video_stream =
     [print_line (Inr (nl @ ''Video Stream:'')),
      print_line (bind (lookup video_stream ''codec_name'')
        (\<lambda>v. Inr (''  Codec: '' @ show_value pe v))),
      print_line (bind (lookup video_stream ''width'')
        (\<lambda>a. bind (lookup video_stream ''height'')
           (\<lambda>b. Inr (''  Resolution: '' @ show_value pe a @ ''x'' @ show_value pe b)))),
      print_fps pe video_stream,
      print_line (Inr (''  Pixel Format: ''
        @ show_value pe (get video_stream ''pix_fmt'' (JStr ''N/A''))))]"

definition audio_lines :: "probe_env \<Rightarrow> dict \<Rightarrow> (world \<Rightarrow> exn option \<times> world) list" where
  "audio_lines pe audio_stream =
     [print_line (Inr (nl @ ''Audio Stream:'')),
      print_line (bind (lookup audio_stream ''codec_name'')
        (\<lambda>v. Inr (''  Codec: '' @ show_value pe v))),
      print_line (bind (lookup audio_stream ''sample_rate'')
        (\<lambda>v. Inr (''  Sample Rate: '' @ show_value pe v @ '' Hz''))),
      print_line (bind (lookup audio_stream ''channels'')
        (\<lambda>v. Inr (''  Channels: '' @ show_value pe v))),
      print_line (bind (show_kbps pe (get audio_stream ''bit_rate'' (JInt 0)))
        (\<lambda>t. Inr (''  Bitrate: '' @ t @ '' kbps'')))]"

definition format_lines :: "probe_env \<Rightarrow> dict \<Rightarrow> (world \<Rightarrow> exn option \<times> world) list" where
  "format_lines pe fmt =
     [print_line (Inr ''File Information:''),
      print_line (bind (lookup fmt ''format_long_name'')
        (\<lambda>v. Inr (''  Format: '' @ show_value pe v))),
      print_line (bind (lookup fmt ''duration'')
        (\<lambda>v. bind (show_seconds pe v) (\<lambda>t. Inr (''  Duration: '' @ t @ '' seconds'')))),
      print_line (bind (lookup fmt ''size'')
        (\<lambda>v. bind (show_megabytes pe v) (\<lambda>t. Inr (''  Size: '' @ t @ '' MB'')))),
      print_line (bind (lookup fmt ''bit_rate'')
        (\<lambda>v. bind (show_kbps pe v) (\<lambda>t. Inr (''  Bitrate: '' @ t @ '' kbps''))))]"

text \<open>\<^verbatim>\<open>if stream:\<close> holds for a stream that was found and is not the empty object.\<close>

definition when_stream ::
  "dict option \<Rightarrow> (dict \<Rightarrow> (world \<Rightarrow> exn option \<times> world) list) \<Rightarrow>
   (world \<Rightarrow> exn option \<times> world) list" where
  "when_stream stream body =
     (case stream of None \<Rightarrow> [] | Some s \<Rightarrow> (if s = [] then [] else body s))"

definition demo_ffmpeg_python_probe ::
  "probe_env \<Rightarrow> FFmpegMasterclass \<Rightarrow> string \<Rightarrow> world \<Rightarrow> exn option \<times> world" where
  "demo_ffmpeg_python_probe pe self input_file w =
     (let w = prints [rule80, ''DEMO 5: Probe Video Metadata'', rule80] w
      in case ffmpeg_probe pe input_file of
           ProbeRaises raised \<Rightarrow> (Some raised, w)
         | ProbeError out err \<Rightarrow>
             (case decode err of
                Inl raised \<Rightarrow> (Some raised, w)
              | Inr text \<Rightarrow>
                  (None, print (cross_mark @ '' Error probing file: '' @ text @ nl) w))
         | ProbeOk probe \<Rightarrow>
             (case first_stream ''video'' (streams probe) of
                Inl err \<Rightarrow> (Some err, w)
              | Inr video_stream \<Rightarrow>
                  (case first_stream ''audio'' (streams probe) of
                     Inl err \<Rightarrow> (Some err, w)
                   | Inr audio_stream \<Rightarrow>
                       run_all
                         (format_lines pe (format probe)
                          @ when_stream video_stream (video_lines pe)
                          @ when_stream audio_stream (audio_lines pe)
                          @ [print_line (Inr [])]) w)))"

record video_info =
  info_format :: dict
  video_streams :: "dict list"
  audio_streams :: "dict list"
  subtitle_streams :: "dict list"

text \<open>
  \<^verbatim>\<open>get_video_info\<close> returns the dictionary with the four entries, or the empty
  dictionary, which is \<open>None\<close> here.
\<close>

definition get_video_info ::
  "probe_env \<Rightarrow> FFmpegMasterclass \<Rightarrow> string \<Rightarrow> world \<Rightarrow> (exn + video_info option) \<times> world" where
  "get_video_info pe self input_file w =
     (case ffmpeg_probe pe input_file of
        ProbeRaises raised \<Rightarrow> (Inl raised, w)
      | ProbeError out err \<Rightarrow>
          (case decode err of
             Inl raised \<Rightarrow> (Inl raised, w)
           | Inr text \<Rightarrow> (Inr None, print (''Error getting video info: '' @ text) w))
      | ProbeOk probe \<Rightarrow>
          (bind (streams_of_type ''video'' (streams probe))
             (\<lambda>v. bind (streams_of_type ''audio'' (streams probe))
                (\<lambda>a. bind (streams_of_type ''subtitle'' (streams probe))
                   (\<lambda>s. Inr (Some \<lparr>info_format = format probe,
                                    video_streams = v,
                                    audio_streams = a,
                                    subtitle_streams = s\<rparr>)))),
           w))"

section \<open>Sample inputs\<close>

text \<open>The object that \<^verbatim>\<open>FFmpegMasterclass()\<close> makes with the default output directory.\<close>

definition default_self :: FFmpegMasterclass where
  "default_self = \<lparr>output_dir = Path ''./ffmpeg_output''\<rparr>"


text \<open>
  A world with an empty console in which only the working directory exists, and
  environments with a fixed outcome for every command: the tool exits with status 1,
  the executable is not found, starting it fails for another reason, and the tool runs
  and exits with status 0. In the first, the text of the \<^verbatim>\<open>CalledProcessError\<close> is the one
  Python composes for this status and for arguments without quotes or backslashes.
\<close>

definition quote :: "string \<Rightarrow> string" where
  "quote s = [CHR 0x27] @ s @ [CHR 0x27]"

definition fresh_world :: world where
  "fresh_world = \<lparr>console = [], fs = [\<lparr>anchor = [], parts = []\<rparr> \<mapsto> Dir], procs = []\<rparr>"

definition failing_env :: env where
  "failing_env =
     \<lparr>cwd = Path ''/home/user'',
      run = (\<lambda>cmd. Completed 1 [] ''clip.mp4: No such file or directory''),
      called_process_error_str =
        (\<lambda>cmd returncode. ''Command '' @ quote (''['' @ join '', '' (map quote cmd) @ '']'')
           @ '' returned non-zero exit status 1.'')\<rparr>"

definition absent_env :: env where
  "absent_env =
     \<lparr>cwd = Path ''/home/user'',
      run = (\<lambda>cmd. NotFound (''[Errno 2] No such file or directory: '' @ quote ''ffmpeg'')),
      called_process_error_str = (\<lambda>cmd returncode. [])\<rparr>"

definition denied_env :: env where
  "denied_env =
     \<lparr>cwd = Path ''/home/user'',
      run = (\<lambda>cmd. OtherError (''[Errno 13] Permission denied: '' @ quote ''ffmpeg'')),
      called_process_error_str = (\<lambda>cmd returncode. [])\<rparr>"

definition installed_env :: env where
  "installed_env =
     \<lparr>cwd = Path ''/home/user'',
      run = (\<lambda>cmd. Completed 0 ''ffmpeg version 6.0'' []),
      called_process_error_str = (\<lambda>cmd returncode. [])\<rparr>"

text \<open>A stream is of a codec type; a stream's frame-rate field is harmless to evaluate.\<close>

definition has_codec_type :: "string \<Rightarrow> dict \<Rightarrow> bool" where
  "has_codec_type t s = (map_of s ''codec_type'' = Some (JStr t))"

definition fraction_rate :: "dict \<Rightarrow> bool" where
  "fraction_rate s =
     (case map_of s ''r_frame_rate'' of
        Some (JStr r) \<Rightarrow> parse_fraction r \<noteq> None
      | _ \<Rightarrow> True)"

text \<open>
  From one world to the next nothing happened but printing: the file system and the
  process log are the same, and the console has grown at its end.
\<close>

definition only_prints :: "world \<Rightarrow> world \<Rightarrow> bool" where
  "only_prints w w' =
     (fs w' = fs w \<and> procs w' = procs w \<and> take (length (console w)) (console w') = console w)"

text \<open>
  A probe result with a data stream, a video stream with a given frame-rate field and
  an audio stream, and a probe environment that returns it for every file. Its
  \<^verbatim>\<open>eval\<close> creates a directory on \<open>mkdir_expression\<close> and returns \<^verbatim>\<open>None\<close>, as Python does,
  and takes any other string that is not a fraction for a syntax error.
\<close>

definition show_plain :: "jval \<Rightarrow> string" where
  "show_plain v =
     (case v of
        JStr s \<Rightarrow> s
      | JInt i \<Rightarrow> str_int i
      | JObj d \<Rightarrow> ''{...}'')"

definition sample_format :: dict where
  "sample_format =
     [(''format_long_name'', JStr ''QuickTime / MOV''),
      (''duration'', JStr ''10.000000''),
      (''size'', JStr ''1048576''),
      (''bit_rate'', JStr ''838860'')]"

definition sample_video :: "string \<Rightarrow> dict" where
  "sample_video rate =
     [(''codec_type'', JStr ''video''),
      (''codec_name'', JStr ''h264''),
      (''width'', JInt 1920),
      (''height'', JInt 1080),
      (''r_frame_rate'', JStr rate)]"

definition sample_audio :: dict where
  "sample_audio =
     [(''codec_type'', JStr ''audio''),
      (''codec_name'', JStr ''aac''),
      (''sample_rate'', JStr ''48000''),
      (''channels'', JInt 2)]"

definition sample_data :: dict where
  "sample_data = [(''codec_type'', JStr ''data''), (''codec_name'', JStr ''bin_data'')]"

definition mkdir_expression :: string where
  "mkdir_expression = ''__import__('os').mkdir('pwned')''"

definition sample_probe_env :: "string \<Rightarrow> probe_env" where
  "sample_probe_env rate =
     \<lparr>ffmpeg_probe =
        (\<lambda>f. ProbeOk \<lparr>format = sample_format,
                        streams = [sample_data, sample_video rate, sample_audio]\<rparr>),
      show_value = show_plain,
      show_seconds = (\<lambda>v. Inr ''10.00''),
      show_megabytes = (\<lambda>v. Inr ''1.00''),
      show_kbps = (\<lambda>v. Inr ''839''),
      show_fps = (\<lambda>x. case x of Quot n d \<Rightarrow> Inr ''29.97'' | Obj s \<Rightarrow> Inl TypeError),
      eval_other =
        (\<lambda>s w. if s = mkdir_expression
                then (Inr (Obj ''None''), w\<lparr>fs := (fs w)(Path ''pwned'' \<mapsto> Dir)\<rparr>)
                else (Inl (OtherException ''SyntaxError''), w))\<rparr>"


definition untyped_stream :: dict where
  "untyped_stream = [(''index'', JInt 2), (''codec_tag_string'', JStr ''[0][0][0][0]'')]"

definition untyped_probe_env :: probe_env where
  "untyped_probe_env =
     (sample_probe_env ''30/1'')
       \<lparr>ffmpeg_probe :=
          (\<lambda>f. ProbeOk \<lparr>format = sample_format,
                          streams = [sample_video ''30/1'', untyped_stream]\<rparr>)\<rparr>"

definition latin1_diagnostics :: string where
  "latin1_diagnostics = ''caf'' @ [CHR 0xE9] @ ''.mp4: No such file or directory''"

definition latin1_probe_env :: probe_env where
  "latin1_probe_env =
     (sample_probe_env ''30/1'')\<lparr>ffmpeg_probe := (\<lambda>f. ProbeError [] latin1_diagnostics)\<rparr>"

definition missing_file_probe_env :: probe_env where
  "missing_file_probe_env =
     (sample_probe_env ''30/1'')
       \<lparr>ffmpeg_probe := (\<lambda>f. ProbeError [] (f @ '': No such file or directory''))\<rparr>"

section \<open>Properties of the requests\<close>

lemmas demo_defs =
  demo_cli_basic_conversion_cmd_def demo_cli_with_filters_cmd_def demo_cli_extract_audio_cmd_def
  demo_ffmpeg_python_basic_stream_def demo_ffmpeg_python_filters_stream_def
  demo_ffmpeg_python_trim_stream_def demo_ffmpeg_python_concat_stream_def
  demo_ffmpeg_python_overlay_stream_def demo_extract_frames_stream_def
  demo_create_video_from_images_stream_def demo_add_audio_to_video_stream_def
  demo_create_gif_stream_def demo_streaming_hls_stream_def demo_watermark_stream_def
  demo_audio_visualization_stream_def

lemma split_on_plain: "c \<notin> set s \<Longrightarrow> split_on c s = [s]"
  by (induction s) auto

lemma Path_plain_name:
  "CHR ''/'' \<notin> set s \<Longrightarrow> s \<noteq> [] \<Longrightarrow> s \<noteq> ''.'' \<Longrightarrow> Path s = \<lparr>anchor = [], parts = [s]\<rparr>"
  by (cases s) (auto simp: Path_def splitroot_def split_on_plain)

lemma join_snoc: "xs \<noteq> [] \<Longrightarrow> join sep (xs @ [x]) = join sep xs @ sep @ x"
  by (induction sep xs rule: join.induct) auto

lemma path_str_truediv_name:
  assumes "Path name = \<lparr>anchor = [], parts = [name]\<rparr>"
  shows "\<exists>pre. path_str (truediv p name) = pre @ name"
  using assms by (cases "parts p = []") (auto simp: truediv_def path_str_def Let_def join_snoc)

lemma Path_default_dir:
  "Path ''./ffmpeg_output'' = \<lparr>anchor = [], parts = [''ffmpeg_output'']\<rparr>"
  by (simp add: Path_def splitroot_def)

lemma Path_extracted_audio:
  "Path ''extracted_audio.mp3'' = \<lparr>anchor = [], parts = [''extracted_audio.mp3'']\<rparr>"
  by (rule Path_plain_name) simp_all

lemma default_extracted_audio:
  "path_str (truediv (Path ''./ffmpeg_output'') ''extracted_audio.mp3'') =
     ''ffmpeg_output/extracted_audio.mp3''"
  by (simp add: Path_default_dir Path_extracted_audio truediv_def path_str_def)

text \<open>
  Claim C1. The extract-audio demo runs \<^verbatim>\<open>ffmpeg\<close> with the arguments
  \<^verbatim>\<open>-i <input> -vn -acodec libmp3lame -q:a 2 -y <output>\<close> in this order, for every output
  directory and input path: the caller's path follows \<^verbatim>\<open>-i\<close>, and the last argument is
  the file \<^verbatim>\<open>extracted_audio.mp3\<close> under the output directory. For \<^verbatim>\<open>clip.mp4\<close> and the
  default directory the sequence is written out.
\<close>

theorem extract_audio_argument_sequence:
  "hd (demo_cli_extract_audio_cmd self input_file) = ''ffmpeg''
   \<and> tl (demo_cli_extract_audio_cmd self input_file) =
       [''-i'', input_file, ''-vn'', ''-acodec'', ''libmp3lame'', ''-q:a'', ''2'', ''-y'',
        path_str (truediv (output_dir self) ''extracted_audio.mp3'')]
   \<and> (\<exists>dir. path_str (truediv (output_dir self) ''extracted_audio.mp3'')
                = dir @ ''extracted_audio.mp3'')
   \<and> tl (demo_cli_extract_audio_cmd default_self ''clip.mp4'') =
       [''-i'', ''clip.mp4'', ''-vn'', ''-acodec'', ''libmp3lame'', ''-q:a'', ''2'', ''-y'',
        ''ffmpeg_output/extracted_audio.mp3'']"
proof -
  have "\<exists>dir. path_str (truediv (output_dir self) ''extracted_audio.mp3'')
               = dir @ ''extracted_audio.mp3''"
    by (rule path_str_truediv_name) (rule Path_extracted_audio)
  then show ?thesis
    by (simp add: demo_cli_extract_audio_cmd_def default_self_def default_extracted_audio)
qed








lemma str_nat_0: "str_nat 0 = ''0''"
  by (simp add: str_nat.simps digit_char_def)

lemma str_nat_1: "str_nat (Suc 0) = ''1''"
  by (simp add: str_nat.simps digit_char_def)

lemma str_int_literals:
  "str_int 1 = ''1''" "str_int 5 = ''5''" "str_int 10 = ''10''" "str_int 20 = ''20''"
  "str_int 480 = ''480''" "str_int (- 1) = ''-1''"
  by (simp_all add: str_int_def str_nat.simps digit_char_def)

lemma escape_chars_append:
  "escape_chars (a @ b) chars = escape_chars a chars @ escape_chars b chars"
  by (simp add: escape_chars_def)

lemma escape_chars_plain: "set t \<inter> set chars = {} \<Longrightarrow> escape_chars t chars = t"
  by (induction t) (auto simp: escape_chars_def)

lemma escape_literals:
  "escape_chars ''fps'' parameter_chars = ''fps''"
  "escape_chars ''scale'' parameter_chars = ''scale''"
  "escape_chars ''10'' parameter_chars = ''10''"
  "escape_chars ''480'' parameter_chars = ''480''"
  "escape_chars ''-1'' parameter_chars = ''-1''"
  "escape_chars ''fps=fps=10'' graph_chars = ''fps=fps=10''"
  "escape_chars ''scale=480:-1'' graph_chars = ''scale=480:-1''"
  "escape_chars ''fps=fps='' graph_chars = ''fps=fps=''"
  by (simp_all add: escape_chars_def parameter_chars_def graph_chars_def)

lemmas args_defs =
  get_input_args_def get_output_args_def get_filter_args_def get_filter_def
  convert_kwargs_to_cmd_line_args_def sorted_items_def option_args_def remove_keys_def
  format_value_def

lemma trim_args:
  "get_args py_str (demo_ffmpeg_python_trim_stream self input_file start duration) =
     Some [''-ss'', py_str start, ''-t'', py_str duration, ''-i'', input_file,
           ''-acodec'', ''copy'', ''-vcodec'', ''copy'',
           path_str (truediv (output_dir self) ''trimmed.mp4''), ''-y'']"
  by (simp add: demo_ffmpeg_python_trim_stream_def Let_def args_defs)

lemma from_images_args:
  "get_args py_str (demo_create_video_from_images_stream self image_pattern fps) =
     Some [''-framerate'', py_str fps, ''-pattern_type'', ''glob'', ''-i'', image_pattern,
           ''-crf'', ''20'', ''-pix_fmt'', ''yuv420p'', ''-vcodec'', ''libx264'',
           path_str (truediv (output_dir self) ''from_images.mp4''), ''-y'']"
  by (simp add: demo_create_video_from_images_stream_def Let_def args_defs str_int_literals)

lemma gif_args:
  "get_args py_str (demo_create_gif_stream self input_file start duration) =
     Some [''-ss'', py_str start, ''-t'', py_str duration, ''-i'', input_file,
           ''-filter_complex'', ''[0]fps=fps=10[s0];[s0]scale=480:-1[s1]'',
           ''-map'', ''[s1]'', ''-f'', ''gif'',
           path_str (truediv (output_dir self) ''output.gif''), ''-y'']"
  by (simp add: demo_create_gif_stream_def Let_def args_defs str_int_literals str_nat_0 str_nat_1
      escape_literals)

lemma frames_args:
  assumes "set (py_str fps) \<inter> set (parameter_chars @ graph_chars) = {}"
  shows "get_args py_str (demo_extract_frames_stream self input_file fps) =
     Some [''-i'', input_file, ''-filter_complex'', ''[0]fps=fps='' @ py_str fps @ ''[s0]'',
           ''-map'', ''[s0]'', ''-f'', ''image2'', ''-vcodec'', ''png'',
           path_str (truediv (truediv (output_dir self) ''frames'') ''frame_%04d.png''), ''-y'']"
proof -
  have p: "escape_chars (py_str fps) parameter_chars = py_str fps"
    using assms by (intro escape_chars_plain) auto
  have g: "escape_chars (py_str fps) graph_chars = py_str fps"
    using assms by (intro escape_chars_plain) auto
  have "escape_chars (''fps=fps='' @ py_str fps) graph_chars = ''fps=fps='' @ py_str fps"
    by (simp only: escape_chars_append escape_literals g)
  then show ?thesis
    by (simp add: demo_extract_frames_stream_def Let_def args_defs str_nat_0
        escape_literals p)
qed

text \<open>
  Claim C3. Every numeric parameter of an operation is in the argument sequence as the
  text of the caller's value itself, whatever that text is. Trimming puts the text of
  the start time right after \<^verbatim>\<open>-ss\<close> and the text of the duration right after \<^verbatim>\<open>-t\<close>, and
  so does the GIF demo; the image-sequence demo puts the text of the frame rate right
  after \<^verbatim>\<open>-framerate\<close>; the frame-extraction demo puts the text of the frame rate in its
  \<^verbatim>\<open>fps\<close> filter, unchanged when it has none of the characters that a filter graph
  escapes, which no number has. These are all the numeric parameters: the numbers of
  each request are the numeric parameters of its operation, and no operation takes a
  bit rate. With start 5 and duration 10, trimming passes \<^verbatim>\<open>-ss 5 -t 10\<close>. The argument
  sequence is the one of the translation \<open>get_args\<close>.
\<close>

theorem numeric_parameters_rendered_unchanged:
  "get_args py_str (demo_ffmpeg_python_trim_stream self input_file start duration) =
     Some [''-ss'', py_str start, ''-t'', py_str duration, ''-i'', input_file,
           ''-acodec'', ''copy'', ''-vcodec'', ''copy'',
           path_str (truediv (output_dir self) ''trimmed.mp4''), ''-y'']
   \<and> get_args py_str (demo_create_gif_stream self input_file start duration) =
     Some [''-ss'', py_str start, ''-t'', py_str duration, ''-i'', input_file,
           ''-filter_complex'', ''[0]fps=fps=10[s0];[s0]scale=480:-1[s1]'',
           ''-map'', ''[s1]'', ''-f'', ''gif'',
           path_str (truediv (output_dir self) ''output.gif''), ''-y'']
   \<and> get_args py_str (demo_create_video_from_images_stream self input_file fps) =
     Some [''-framerate'', py_str fps, ''-pattern_type'', ''glob'', ''-i'', input_file,
           ''-crf'', ''20'', ''-pix_fmt'', ''yuv420p'', ''-vcodec'', ''libx264'',
           path_str (truediv (output_dir self) ''from_images.mp4''), ''-y'']
   \<and> (set (py_str fps) \<inter> set (parameter_chars @ graph_chars) = {} \<longrightarrow>
        get_args py_str (demo_extract_frames_stream self input_file fps) =
          Some [''-i'', input_file, ''-filter_complex'', ''[0]fps=fps='' @ py_str fps @ ''[s0]'',
                ''-map'', ''[s0]'', ''-f'', ''image2'', ''-vcodec'', ''png'',
                path_str (truediv (truediv (output_dir self) ''frames'') ''frame_%04d.png''),
                ''-y''])
   \<and> request_numbers (request_of self op) = numeric_params op
   \<and> get_args str_int (demo_ffmpeg_python_trim_stream self input_file 5 10) =
     Some [''-ss'', ''5'', ''-t'', ''10'', ''-i'', input_file,
           ''-acodec'', ''copy'', ''-vcodec'', ''copy'',
           path_str (truediv (output_dir self) ''trimmed.mp4''), ''-y'']"
proof -
  have n: "request_numbers (request_of self op) = numeric_params op"
    by (cases op) (simp_all add: demo_defs Let_def)
  have i: "get_args str_int (demo_ffmpeg_python_trim_stream self input_file 5 10) =
     Some [''-ss'', ''5'', ''-t'', ''10'', ''-i'', input_file,
           ''-acodec'', ''copy'', ''-vcodec'', ''copy'',
           path_str (truediv (output_dir self) ''trimmed.mp4''), ''-y'']"
    by (simp only: trim_args str_int_literals)
  show ?thesis
    using trim_args [of py_str self input_file start duration]
      gif_args [of py_str self input_file start duration]
      from_images_args [of py_str self input_file fps]
      frames_args [of py_str fps self input_file] n i
    by blast
qed

theorem numeric_parameters_rendered_unchanged_witness:
  "get_args str_int (demo_extract_frames_stream default_self ''clip.mp4'' 1) =
     Some [''-i'', ''clip.mp4'', ''-filter_complex'', ''[0]fps=fps=1[s0]'',
           ''-map'', ''[s0]'', ''-f'', ''image2'', ''-vcodec'', ''png'',
           ''ffmpeg_output/frames/frame_%04d.png'', ''-y'']
   \<and> get_args str_int (demo_create_video_from_images_stream default_self ''frames/*.png'' 30) =
     Some [''-framerate'', ''30'', ''-pattern_type'', ''glob'', ''-i'', ''frames/*.png'',
           ''-crf'', ''20'', ''-pix_fmt'', ''yuv420p'', ''-vcodec'', ''libx264'',
           ''ffmpeg_output/from_images.mp4'', ''-y'']"
proof -
  note t = numeric_parameters_rendered_unchanged
    [of str_int default_self _ _ _ 1 "CliExtractAudio []"]
  have h: "set (str_int 1) \<inter> set (parameter_chars @ graph_chars) = {}"
    by (simp add: str_int_literals parameter_chars_def graph_chars_def)
  have a: "get_args str_int (demo_extract_frames_stream default_self ''clip.mp4'' 1) =
          Some [''-i'', ''clip.mp4'', ''-filter_complex'', ''[0]fps=fps='' @ str_int 1 @ ''[s0]'',
                ''-map'', ''[s0]'', ''-f'', ''image2'', ''-vcodec'', ''png'',
                path_str (truediv (truediv (output_dir default_self) ''frames'') ''frame_%04d.png''),
                ''-y'']"
    using t [of "''clip.mp4''", THEN conjunct2, THEN conjunct2, THEN conjunct2, THEN conjunct1] h
    by blast
  note u = numeric_parameters_rendered_unchanged
    [of str_int default_self "''frames/*.png''" _ _ 30 "CliExtractAudio []"]
  have b: "get_args str_int (demo_create_video_from_images_stream default_self ''frames/*.png'' 30) =
     Some [''-framerate'', str_int 30, ''-pattern_type'', ''glob'', ''-i'', ''frames/*.png'',
           ''-crf'', ''20'', ''-pix_fmt'', ''yuv420p'', ''-vcodec'', ''libx264'',
           path_str (truediv (output_dir default_self) ''from_images.mp4''), ''-y'']"
    by (rule u [THEN conjunct2, THEN conjunct2, THEN conjunct1])
  have p1: "path_str (truediv (truediv (output_dir default_self) ''frames'') ''frame_%04d.png'')
              = ''ffmpeg_output/frames/frame_%04d.png''"
    by (simp add: default_self_def Path_default_dir truediv_def path_str_def Path_def splitroot_def)
  have p2: "path_str (truediv (output_dir default_self) ''from_images.mp4'')
              = ''ffmpeg_output/from_images.mp4''"
    by (simp add: default_self_def Path_default_dir truediv_def path_str_def Path_def splitroot_def)
  have s30: "str_int 30 = ''30''"
    by (simp add: str_int_def str_nat.simps digit_char_def)
  show ?thesis
    using a b by (simp add: p1 p2 s30 str_int_literals)
qed

text \<open>
  Claim C6. Every operation that produces an output sets the overwrite policy, whatever
  the caller passes: a command has \<^verbatim>\<open>-y\<close> right before its output file, and a library
  request ends with \<^verbatim>\<open>.overwrite_output()\<close>.
\<close>

theorem overwrite_flag_always_set:
  "overwrites (request_of self op)"
  by (cases op) (simp_all add: demo_defs Let_def)

section \<open>Properties of the runs\<close>

lemma prints_console: "console (prints ls w) = console w @ ls"
  by (induction ls arbitrary: w) (auto simp: print_def)

lemma prints_fs: "fs (prints ls w) = fs w"
  by (induction ls arbitrary: w) (auto simp: print_def)

lemma prints_procs: "procs (prints ls w) = procs w"
  by (induction ls arbitrary: w) (auto simp: print_def)

lemma print_simps:
  "console (print s w) = console w @ [s]" "fs (print s w) = fs w" "procs (print s w) = procs w"
  by (simp_all add: print_def)

text \<open>
  Claim C4 does not hold of the extract-audio demo. It runs the command with
  \<^verbatim>\<open>check=True\<close> and prints the exception in \<^verbatim>\<open>except Exception as e\<close>, so on a non-zero
  exit status the console shows the text of the \<^verbatim>\<open>CalledProcessError\<close> (command and
  status) and not the diagnostics of the tool: the run is the same whatever the tool
  wrote to its error stream. The sibling demos print the diagnostics.
\<close>

theorem extract_audio_failure_hides_stderr:
  "demo_cli_extract_audio (e\<lparr>run := \<lambda>cmd. Completed returncode out err\<rparr>) self input_file w
     = demo_cli_extract_audio (e\<lparr>run := \<lambda>cmd. Completed returncode out err'\<rparr>) self input_file w
   \<and> console (snd (demo_cli_extract_audio failing_env default_self ''clip.mp4'' fresh_world)) =
       [rule80, ''DEMO 3: Extract Audio Track'', rule80,
        ''Command: ffmpeg -i clip.mp4 -vn -acodec libmp3lame -q:a 2 -y ffmpeg_output/extracted_audio.mp3'' @ nl,
        cross_mark @ '' Error: Command '['ffmpeg', '-i', 'clip.mp4', '-vn', '-acodec', 'libmp3lame', '-q:a', '2', '-y', 'ffmpeg_output/extracted_audio.mp3']' returned non-zero exit status 1.'' @ nl]"
proof -
  have a: "demo_cli_extract_audio (e\<lparr>run := \<lambda>cmd. Completed returncode out err\<rparr>) self input_file w
     = demo_cli_extract_audio (e\<lparr>run := \<lambda>cmd. Completed returncode out err'\<rparr>) self input_file w"
    by (simp add: demo_cli_extract_audio_def subprocess_run_def Let_def)
  have b: "console (snd (demo_cli_extract_audio failing_env default_self ''clip.mp4'' fresh_world)) =
       [rule80, ''DEMO 3: Extract Audio Track'', rule80,
        ''Command: ffmpeg -i clip.mp4 -vn -acodec libmp3lame -q:a 2 -y ffmpeg_output/extracted_audio.mp3'' @ nl,
        cross_mark @ '' Error: Command '['ffmpeg', '-i', 'clip.mp4', '-vn', '-acodec', 'libmp3lame', '-q:a', '2', '-y', 'ffmpeg_output/extracted_audio.mp3']' returned non-zero exit status 1.'' @ nl]"
    by (simp add: demo_cli_extract_audio_def subprocess_run_def Let_def failing_env_def
        default_self_def fresh_world_def demo_cli_extract_audio_cmd_def default_extracted_audio
        print_def quote_def)
  show ?thesis using a b by blast
qed

text \<open>
  Extra X1. When the tool exits with a non-zero status, the basic-conversion demo prints
  the captured error stream unchanged after the error mark, then an empty line, and
  returns normally.
\<close>

theorem basic_conversion_surfaces_stderr:
  assumes "run e (demo_cli_basic_conversion_cmd self input_file) = Completed returncode out err"
      and "returncode \<noteq> 0"
  shows "fst (demo_cli_basic_conversion e self input_file w) = None
         \<and> (\<exists>before. console (snd (demo_cli_basic_conversion e self input_file w))
               = before @ [cross_mark @ '' Error: '' @ err, []])"
  using assms
  by (simp add: demo_cli_basic_conversion_def subprocess_run_def Let_def print_def)

theorem basic_conversion_surfaces_stderr_witness:
  "fst (demo_cli_basic_conversion failing_env default_self ''clip.mp4'' fresh_world) = None
   \<and> (\<exists>before. console (snd (demo_cli_basic_conversion failing_env default_self ''clip.mp4''
                               fresh_world))
         = before @ [cross_mark @ '' Error: clip.mp4: No such file or directory'', []])"
proof -
  have r: "run failing_env (demo_cli_basic_conversion_cmd default_self ''clip.mp4'')
             = Completed 1 [] ''clip.mp4: No such file or directory''"
    by (simp add: failing_env_def)
  show ?thesis
    using basic_conversion_surfaces_stderr [OF r, of fresh_world] by simp
qed

lemma ascii_valid_utf8: "list_all (\<lambda>c. of_char c < (128 :: nat)) s \<Longrightarrow> valid_utf8 s"
  by (induction s) (auto simp: in_range_def)

text \<open>
  Extra X2. When the tool exits with a non-zero status and its captured error stream is
  well-formed UTF-8, the filter demo prints it unchanged after the error mark and
  returns normally.
\<close>

theorem with_filters_surfaces_stderr:
  assumes "run e (demo_cli_with_filters_cmd self input_file) = Completed returncode out err"
      and "returncode \<noteq> 0"
      and "valid_utf8 err"
  shows "fst (demo_cli_with_filters e self input_file w) = None
         \<and> (\<exists>before. console (snd (demo_cli_with_filters e self input_file w))
               = before @ [cross_mark @ '' Error: '' @ err @ nl])"
  using assms
  by (simp add: demo_cli_with_filters_def subprocess_run_def Let_def print_def decode_def)

theorem with_filters_surfaces_stderr_witness:
  "fst (demo_cli_with_filters failing_env default_self ''clip.mp4'' fresh_world) = None
   \<and> (\<exists>before. console (snd (demo_cli_with_filters failing_env default_self ''clip.mp4''
                               fresh_world))
         = before @ [cross_mark @ '' Error: clip.mp4: No such file or directory'' @ nl])"
proof -
  have r: "run failing_env (demo_cli_with_filters_cmd default_self ''clip.mp4'')
             = Completed 1 [] ''clip.mp4: No such file or directory''"
    by (simp add: failing_env_def)
  have v: "valid_utf8 ''clip.mp4: No such file or directory''"
    by (rule ascii_valid_utf8) simp
  show ?thesis
    using with_filters_surfaces_stderr [OF r _ v, of fresh_world] by simp
qed

text \<open>
  Extra X3. The basic-conversion and extract-audio demos never raise, whatever running
  the command does: not found, another exception, or any exit status. When the
  executable is not found, the basic-conversion demo ends with its not-found line and an
  empty line, and the filter demo with its not-found line.
\<close>

theorem cli_demos_catch_everything:
  "fst (demo_cli_basic_conversion e self input_file w) = None
   \<and> fst (demo_cli_extract_audio e self input_file w) = None
   \<and> (\<forall>msg. run e (demo_cli_basic_conversion_cmd self input_file) = NotFound msg \<longrightarrow>
         (\<exists>before. console (snd (demo_cli_basic_conversion e self input_file w))
            = before @ [cross_mark @ '' ffmpeg not found! Please install ffmpeg first.'', []]))
   \<and> (\<forall>msg. run e (demo_cli_with_filters_cmd self input_file) = NotFound msg \<longrightarrow>
         fst (demo_cli_with_filters e self input_file w) = None
         \<and> (\<exists>before. console (snd (demo_cli_with_filters e self input_file w))
               = before @ [cross_mark @ '' ffmpeg not found!'' @ nl]))"
proof -
  have a: "fst (demo_cli_basic_conversion e self input_file w) = None"
    by (cases "run e (demo_cli_basic_conversion_cmd self input_file)")
       (simp_all add: demo_cli_basic_conversion_def subprocess_run_def Let_def)
  have b: "fst (demo_cli_extract_audio e self input_file w) = None"
    by (cases "run e (demo_cli_extract_audio_cmd self input_file)")
       (simp_all add: demo_cli_extract_audio_def subprocess_run_def Let_def)
  have c: "\<forall>msg. run e (demo_cli_basic_conversion_cmd self input_file) = NotFound msg \<longrightarrow>
         (\<exists>before. console (snd (demo_cli_basic_conversion e self input_file w))
            = before @ [cross_mark @ '' ffmpeg not found! Please install ffmpeg first.'', []])"
    by (simp add: demo_cli_basic_conversion_def subprocess_run_def Let_def print_def)
  have d: "\<forall>msg. run e (demo_cli_with_filters_cmd self input_file) = NotFound msg \<longrightarrow>
         fst (demo_cli_with_filters e self input_file w) = None
         \<and> (\<exists>before. console (snd (demo_cli_with_filters e self input_file w))
               = before @ [cross_mark @ '' ffmpeg not found!'' @ nl])"
    by (simp add: demo_cli_with_filters_def subprocess_run_def Let_def print_def)
  show ?thesis using a b c d by blast
qed

theorem cli_demos_catch_everything_witness:
  "fst (demo_cli_basic_conversion absent_env default_self ''clip.mp4'' fresh_world) = None
   \<and> fst (demo_cli_extract_audio absent_env default_self ''clip.mp4'' fresh_world) = None
   \<and> fst (demo_cli_with_filters absent_env default_self ''clip.mp4'' fresh_world) = None"
  using cli_demos_catch_everything [of absent_env default_self "''clip.mp4''" fresh_world]
  by (simp add: absent_env_def)

lemma mkdir_cases:
  "mkdir f p True =
     (case f p of
        Some Dir \<Rightarrow> Inr f
      | Some File \<Rightarrow> Inl FileExistsError
      | None \<Rightarrow>
          (case f (parent p) of
             None \<Rightarrow> Inl FileNotFoundError
           | Some File \<Rightarrow> Inl NotADirectoryError
           | Some Dir \<Rightarrow> Inr (f(p \<mapsto> Dir))))"
  by (simp add: mkdir_def os_mkdir_def is_dir_def split: option.splits kind.splits)

lemma mkdir_result:
  assumes "mkdir f p True = Inr f'"
  shows "f' p = Some Dir \<and> (\<forall>q. q \<noteq> p \<longrightarrow> f' q = f q) \<and> mkdir f' p True = Inr f'"
  using assms by (auto simp: mkdir_cases split: option.splits kind.splits)

lemma init_unfold:
  "FFmpegMasterclass_init e d w =
     (case mkdir (fs w) (Path d) True of
        Inl err \<Rightarrow> (Inl err, w)
      | Inr f' \<Rightarrow>
          (Inr \<lparr>output_dir = Path d\<rparr>,
           print (''Output directory: '' @ path_str (absolute e (Path d)) @ nl) (w\<lparr>fs := f'\<rparr>)))"
  by (simp add: FFmpegMasterclass_init_def Let_def split: sum.split)



lemma fresh_mkdir:
  "mkdir (fs fresh_world) (Path ''./ffmpeg_output'') True
     = Inr ((fs fresh_world)(Path ''./ffmpeg_output'' \<mapsto> Dir))"
  by (simp add: mkdir_cases fresh_world_def Path_default_dir parent_def)


text \<open>
  Claim C7, as stated, fails: a missing output directory is not created when its
  parent is missing too, since \<^verbatim>\<open>mkdir\<close> is called without \<^verbatim>\<open>parents=True\<close>. With only the
  working directory present, constructing the object for \<^verbatim>\<open>results/run1\<close> raises
  \<^verbatim>\<open>FileNotFoundError\<close> and leaves the world as it was.
\<close>

theorem nested_output_dir_counterexample:
  "FFmpegMasterclass_init absent_env ''results/run1'' fresh_world = (Inl FileNotFoundError, fresh_world)"
  by (simp add: init_unfold mkdir_cases fresh_world_def Path_def splitroot_def parent_def)

text \<open>
  Claim C7, amended. The constructor succeeds without changing the file system when the
  output directory exists; it creates the directory when it is missing and its parent
  is a directory; it raises \<^verbatim>\<open>FileNotFoundError\<close> when the directory and its parent are
  both missing. Whenever it succeeds, the directory exists afterwards, no other path has
  changed, and constructing the object again succeeds and leaves the file system as it
  is.
\<close>

theorem output_dir_creation:
  "(fs w (Path d) = Some Dir \<longrightarrow>
      (\<exists>w'. FFmpegMasterclass_init e d w = (Inr \<lparr>output_dir = Path d\<rparr>, w') \<and> fs w' = fs w))
   \<and> (fs w (Path d) = None \<and> fs w (parent (Path d)) = Some Dir \<longrightarrow>
      (\<exists>w'. FFmpegMasterclass_init e d w = (Inr \<lparr>output_dir = Path d\<rparr>, w')
         \<and> fs w' = (fs w)(Path d \<mapsto> Dir)))
   \<and> (fs w (Path d) = None \<and> fs w (parent (Path d)) = None \<longrightarrow>
      FFmpegMasterclass_init e d w = (Inl FileNotFoundError, w))
   \<and> (\<forall>self w1. FFmpegMasterclass_init e d w = (Inr self, w1) \<longrightarrow>
      fs w1 (Path d) = Some Dir
      \<and> (\<forall>p. p \<noteq> Path d \<longrightarrow> fs w1 p = fs w p)
      \<and> (\<exists>w2. FFmpegMasterclass_init e d w1 = (Inr self, w2) \<and> fs w2 = fs w1))"
proof -
  have a: "fs w (Path d) = Some Dir \<longrightarrow>
      (\<exists>w'. FFmpegMasterclass_init e d w = (Inr \<lparr>output_dir = Path d\<rparr>, w') \<and> fs w' = fs w)"
    by (simp add: init_unfold mkdir_cases print_simps)
  have b: "fs w (Path d) = None \<and> fs w (parent (Path d)) = Some Dir \<longrightarrow>
      (\<exists>w'. FFmpegMasterclass_init e d w = (Inr \<lparr>output_dir = Path d\<rparr>, w')
         \<and> fs w' = (fs w)(Path d \<mapsto> Dir))"
    by (simp add: init_unfold mkdir_cases print_simps)
  have c: "fs w (Path d) = None \<and> fs w (parent (Path d)) = None \<longrightarrow>
      FFmpegMasterclass_init e d w = (Inl FileNotFoundError, w)"
    by (simp add: init_unfold mkdir_cases)
  have d: "fs w1 (Path d) = Some Dir
      \<and> (\<forall>p. p \<noteq> Path d \<longrightarrow> fs w1 p = fs w p)
      \<and> (\<exists>w2. FFmpegMasterclass_init e d w1 = (Inr self, w2) \<and> fs w2 = fs w1)"
    if h: "FFmpegMasterclass_init e d w = (Inr self, w1)" for self w1
  proof -
    from h obtain f' where m: "mkdir (fs w) (Path d) True = Inr f'"
      and s: "self = \<lparr>output_dir = Path d\<rparr>"
      and w1: "w1 = print (''Output directory: '' @ path_str (absolute e (Path d)) @ nl) (w\<lparr>fs := f'\<rparr>)"
      by (auto simp: init_unfold split: sum.splits)
    have f1: "fs w1 = f'" by (simp add: w1 print_simps)
    from mkdir_result [OF m] have r: "f' (Path d) = Some Dir"
      "\<forall>q. q \<noteq> Path d \<longrightarrow> f' q = fs w q" "mkdir f' (Path d) True = Inr f'"
      by simp_all
    have "\<exists>w2. FFmpegMasterclass_init e d w1 = (Inr self, w2) \<and> fs w2 = fs w1"
      using r(3) by (simp add: init_unfold f1 s print_simps)
    then show ?thesis using r f1 by simp
  qed
  show ?thesis using a b c d by blast
qed

theorem output_dir_creation_witness:
  "fs (snd (FFmpegMasterclass_init absent_env ''./ffmpeg_output'' fresh_world)) (Path ''./ffmpeg_output'')
     = Some Dir
   \<and> fst (FFmpegMasterclass_init absent_env ''./ffmpeg_output''
             (snd (FFmpegMasterclass_init absent_env ''./ffmpeg_output'' fresh_world)))
     = Inr default_self
   \<and> fs (snd (FFmpegMasterclass_init absent_env ''./ffmpeg_output''
             (snd (FFmpegMasterclass_init absent_env ''./ffmpeg_output'' fresh_world))))
     = fs (snd (FFmpegMasterclass_init absent_env ''./ffmpeg_output'' fresh_world))"
proof -
  obtain w1 where i: "FFmpegMasterclass_init absent_env ''./ffmpeg_output'' fresh_world
                        = (Inr default_self, w1)"
    using fresh_mkdir by (simp add: init_unfold default_self_def)
  from output_dir_creation [of fresh_world "''./ffmpeg_output''" absent_env] i
  obtain w2 where "fs w1 (Path ''./ffmpeg_output'') = Some Dir"
    "FFmpegMasterclass_init absent_env ''./ffmpeg_output'' w1 = (Inr default_self, w2)"
    "fs w2 = fs w1"
    by blast
  then show ?thesis by (simp add: i)
qed

text \<open>
  Claim C9 does not hold of the code. The method is documented to check whether the tool
  is installed and accessible and to return a boolean, and it catches only
  \<^verbatim>\<open>FileNotFoundError\<close>. When starting the process raises something else, here the
  permission error for an \<^verbatim>\<open>ffmpeg\<close> file that is not executable, the exception leaves the
  method and no boolean is returned. The subprocess demos catch such an exception with
  \<^verbatim>\<open>except Exception\<close>.
\<close>

theorem check_propagates_other_errors_counterexample:
  "fst (check_ffmpeg_installed denied_env default_self fresh_world)
     = Inl (OtherException (''[Errno 13] Permission denied: '' @ quote ''ffmpeg''))"
  by (simp add: check_ffmpeg_installed_def subprocess_run_def denied_env_def)

text \<open>
  Extra X4. The installation check returns \<^verbatim>\<open>True\<close> exactly when the version command ran
  and exited with status 0; it returns \<^verbatim>\<open>False\<close> when the executable is not found; it
  returns a boolean whenever the command ran to its end or was not found; and
  \<^verbatim>\<open>FileNotFoundError\<close> never leaves it.
\<close>

theorem check_ffmpeg_installed_result:
  "(fst (check_ffmpeg_installed e self w) = Inr True
      \<longleftrightarrow> (\<exists>out err. run e [''ffmpeg'', ''-version''] = Completed 0 out err))
   \<and> ((\<exists>msg. run e [''ffmpeg'', ''-version''] = NotFound msg)
        \<longrightarrow> fst (check_ffmpeg_installed e self w) = Inr False)
   \<and> ((\<forall>msg. run e [''ffmpeg'', ''-version''] \<noteq> OtherError msg)
        \<longrightarrow> (\<exists>b. fst (check_ffmpeg_installed e self w) = Inr b))
   \<and> fst (check_ffmpeg_installed e self w) \<noteq> Inl FileNotFoundError"
  by (cases "run e [''ffmpeg'', ''-version'']")
     (auto simp: check_ffmpeg_installed_def subprocess_run_def)

theorem check_ffmpeg_installed_result_witness:
  "fst (check_ffmpeg_installed absent_env default_self fresh_world) = Inr False
   \<and> fst (check_ffmpeg_installed installed_env default_self fresh_world) = Inr True"
  using check_ffmpeg_installed_result [of absent_env default_self fresh_world]
        check_ffmpeg_installed_result [of installed_env default_self fresh_world]
  by (simp add: absent_env_def installed_env_def)

section \<open>Properties of probing\<close>

lemma streams_of_type_filter:
  "list_all (\<lambda>s. map_of s ''codec_type'' \<noteq> None) ss \<Longrightarrow>
   streams_of_type t ss = Inr (filter (has_codec_type t) ss)"
  by (induction ss) (auto simp: bind_def lookup_def has_codec_type_def)

text \<open>
  Claim C10, as stated, fails in both halves. A successful probe with a stream that has
  no \<^verbatim>\<open>codec_type\<close> makes \<^verbatim>\<open>get_video_info\<close> raise \<^verbatim>\<open>KeyError\<close> instead of returning the
  lists; and on a failed probe whose diagnostics are not UTF-8 the handler's
  \<^verbatim>\<open>e.stderr.decode()\<close> raises \<^verbatim>\<open>UnicodeDecodeError\<close> instead of returning the empty
  dictionary.
\<close>

theorem get_video_info_raises_counterexample:
  "fst (get_video_info untyped_probe_env default_self ''clip.mp4'' fresh_world)
     = Inl (KeyError ''codec_type'')
   \<and> fst (get_video_info latin1_probe_env default_self ''clip.mp4'' fresh_world)
     = Inl UnicodeDecodeError"
proof -
  have a: "fst (get_video_info untyped_probe_env default_self ''clip.mp4'' fresh_world)
             = Inl (KeyError ''codec_type'')"
    by (simp add: get_video_info_def untyped_probe_env_def sample_probe_env_def
        sample_video_def untyped_stream_def bind_def lookup_def)
  have "\<not> valid_utf8 latin1_diagnostics"
    by (simp add: latin1_diagnostics_def in_range_def continuation_def second_of_three_def)
  then have b: "fst (get_video_info latin1_probe_env default_self ''clip.mp4'' fresh_world)
             = Inl UnicodeDecodeError"
    by (simp add: get_video_info_def latin1_probe_env_def sample_probe_env_def decode_def)
  show ?thesis using a b by simp
qed

text \<open>
  Claim C10, amended. When the probe raises \<^verbatim>\<open>ffmpeg.Error\<close> and its diagnostics are
  well-formed UTF-8, \<^verbatim>\<open>get_video_info\<close> prints them and returns the empty dictionary,
  without raising. When the probe succeeds and every stream has a \<^verbatim>\<open>codec_type\<close>, it
  returns the format record of the probe and, for each of \<^verbatim>\<open>video\<close>, \<^verbatim>\<open>audio\<close> and
  \<^verbatim>\<open>subtitle\<close>, the streams of exactly that codec type in their original order, so a
  stream of another type is in none of the lists; nothing is printed.
\<close>

theorem get_video_info_result:
  "(\<forall>out err. ffmpeg_probe pe input_file = ProbeError out err \<and> valid_utf8 err \<longrightarrow>
       get_video_info pe self input_file w
         = (Inr None, print (''Error getting video info: '' @ err) w))
   \<and> (\<forall>probe. ffmpeg_probe pe input_file = ProbeOk probe
         \<and> list_all (\<lambda>s. map_of s ''codec_type'' \<noteq> None) (streams probe) \<longrightarrow>
       get_video_info pe self input_file w
         = (Inr (Some \<lparr>info_format = format probe,
                       video_streams = filter (has_codec_type ''video'') (streams probe),
                       audio_streams = filter (has_codec_type ''audio'') (streams probe),
                       subtitle_streams = filter (has_codec_type ''subtitle'') (streams probe)\<rparr>),
            w))"
  by (auto simp: get_video_info_def decode_def streams_of_type_filter bind_def)

theorem get_video_info_result_witness:
  "get_video_info missing_file_probe_env default_self ''clip.mp4'' fresh_world
     = (Inr None,
        print ''Error getting video info: clip.mp4: No such file or directory'' fresh_world)
   \<and> get_video_info (sample_probe_env ''30/1'') default_self ''clip.mp4'' fresh_world
     = (Inr (Some \<lparr>info_format = sample_format,
                   video_streams = [sample_video ''30/1''],
                   audio_streams = [sample_audio],
                   subtitle_streams = []\<rparr>),
        fresh_world)"
proof -
  have v: "valid_utf8 ''clip.mp4: No such file or directory''"
    by (rule ascii_valid_utf8) simp
  show ?thesis
    using get_video_info_result [of missing_file_probe_env "''clip.mp4''" default_self fresh_world]
          get_video_info_result [of "sample_probe_env ''30/1''" "''clip.mp4''" default_self fresh_world]
          v
    by (simp add: missing_file_probe_env_def sample_probe_env_def has_codec_type_def
        sample_data_def sample_video_def sample_audio_def)
qed

lemma take_length_iff: "take (length xs) ys = xs \<longleftrightarrow> (\<exists>zs. ys = xs @ zs)"
  by (metis append_eq_conv_conj append_take_drop_id)

lemma only_prints_iff:
  "only_prints w w' \<longleftrightarrow> fs w' = fs w \<and> procs w' = procs w \<and> (\<exists>ls. console w' = console w @ ls)"
  by (simp add: only_prints_def take_length_iff)

lemma only_prints_refl: "only_prints w w"
  by (simp add: only_prints_iff)

lemma only_prints_trans: "only_prints a b \<Longrightarrow> only_prints b c \<Longrightarrow> only_prints a c"
  by (auto simp: only_prints_iff)

lemma only_prints_print: "only_prints w (print s w)"
  by (simp add: only_prints_iff print_simps)

lemma only_prints_prints: "only_prints w (prints ls w)"
  by (simp add: only_prints_iff prints_console prints_fs prints_procs del: prints.simps)

lemma print_line_only_prints: "only_prints w (snd (print_line r w))"
  by (cases r) (simp_all add: print_line_def only_prints_refl only_prints_print)

lemma run_all_only_prints:
  "(\<And>a w. a \<in> set as \<Longrightarrow> only_prints w (snd (a w))) \<Longrightarrow> only_prints w (snd (run_all as w))"
proof (induction as arbitrary: w)
  case Nil
  then show ?case by (simp add: only_prints_refl)
next
  case (Cons a as)
  obtain r w' where aw: "a w = (r, w')" by (cases "a w")
  have step: "only_prints w w'"
    using Cons.prems [of a w] aw by simp
  show ?case
  proof (cases r)
    case None
    have "only_prints w' (snd (run_all as w'))"
      by (rule Cons.IH) (simp add: Cons.prems)
    then show ?thesis
      using step aw None by (simp add: only_prints_trans [OF step])
  next
    case (Some err)
    then show ?thesis using step aw by simp
  qed
qed

lemma py_eval_fraction:
  "fraction_rate s \<Longrightarrow> snd (py_eval pe (get s ''r_frame_rate'' (JStr ''0/1'')) w) = w"
proof -
  assume f: "fraction_rate s"
  have d: "parse_fraction ''0/1'' = Some (0, 1)"
    by (simp add: parse_fraction_def int_literal_def is_digit_def nat_of_digits_def)
  show ?thesis
  proof (cases "map_of s ''r_frame_rate''")
    case None
    then show ?thesis by (simp add: get_def py_eval_def d)
  next
    case (Some v)
    then show ?thesis
      using f by (cases v) (auto simp: get_def py_eval_def fraction_rate_def split: option.splits)
  qed
qed

lemma print_fps_only_prints:
  assumes "fraction_rate s"
  shows "only_prints w (snd (print_fps pe s w))"
proof -
  obtain r w' where e: "py_eval pe (get s ''r_frame_rate'' (JStr ''0/1'')) w = (r, w')"
    by (cases "py_eval pe (get s ''r_frame_rate'' (JStr ''0/1'')) w")
  have "w' = w" using py_eval_fraction [OF assms, of pe w] e by simp
  then show ?thesis
    using e by (cases r) (simp_all add: print_fps_def only_prints_refl print_line_only_prints)
qed

lemma format_lines_only_prints:
  "a \<in> set (format_lines pe fmt) \<Longrightarrow> only_prints w (snd (a w))"
  by (auto simp: format_lines_def print_line_only_prints)

lemma audio_lines_only_prints:
  "a \<in> set (audio_lines pe s) \<Longrightarrow> only_prints w (snd (a w))"
  by (auto simp: audio_lines_def print_line_only_prints)

lemma video_lines_only_prints:
  "fraction_rate s \<Longrightarrow> a \<in> set (video_lines pe s) \<Longrightarrow> only_prints w (snd (a w))"
  by (auto simp: video_lines_def print_line_only_prints print_fps_only_prints)

text \<open>
  Claim C8, amended. When the frame-rate field of the first video stream in the probe
  result is absent, not a string, or a fraction of two integer literals, the probe demo
  does nothing but print: the file system and the process log are unchanged and the
  console only grows, whether the demo returns or raises. The same holds when there is
  no video stream or the probe fails.
\<close>

theorem probe_demo_only_prints:
  assumes "\<forall>probe s. ffmpeg_probe pe input_file = ProbeOk probe
             \<and> first_stream ''video'' (streams probe) = Inr (Some s) \<longrightarrow> fraction_rate s"
  shows "only_prints w (snd (demo_ffmpeg_python_probe pe self input_file w))"
proof -
  let ?w = "prints [rule80, ''DEMO 5: Probe Video Metadata'', rule80] w"
  have banner: "only_prints w ?w" by (rule only_prints_prints)
  show ?thesis
  proof (cases "ffmpeg_probe pe input_file")
    case (ProbeRaises raised)
    then show ?thesis
      using banner by (simp add: demo_ffmpeg_python_probe_def Let_def del: prints.simps)
  next
    case (ProbeError out err)
    show ?thesis
    proof (cases "decode err")
      case (Inl raised)
      then show ?thesis
        using ProbeError banner
        by (simp add: demo_ffmpeg_python_probe_def Let_def del: prints.simps)
    next
      case (Inr decoded)
      then have "snd (demo_ffmpeg_python_probe pe self input_file w)
                   = print (cross_mark @ '' Error probing file: '' @ decoded @ nl) ?w"
        using ProbeError by (simp add: demo_ffmpeg_python_probe_def Let_def del: prints.simps)
      then show ?thesis
        using only_prints_trans [OF banner only_prints_print] by simp
    qed
  next
    case (ProbeOk probe)
    then have rates: "\<And>s. first_stream ''video'' (streams probe) = Inr (Some s) \<Longrightarrow> fraction_rate s"
      using assms by blast
    show ?thesis
    proof (cases "first_stream ''video'' (streams probe)")
      case (Inl err)
      then show ?thesis
        using ProbeOk banner by (simp add: demo_ffmpeg_python_probe_def Let_def del: prints.simps)
    next
      case v: (Inr video_stream)
      show ?thesis
      proof (cases "first_stream ''audio'' (streams probe)")
        case (Inl err)
        then show ?thesis
          using ProbeOk v banner by (simp add: demo_ffmpeg_python_probe_def Let_def del: prints.simps)
      next
        case a: (Inr audio_stream)
        let ?body = "format_lines pe (format probe)
                      @ when_stream video_stream (video_lines pe)
                      @ when_stream audio_stream (audio_lines pe)
                      @ [print_line (Inr [])]"
        have vid: "only_prints w' (snd (act w'))"
          if "act \<in> set (when_stream video_stream (video_lines pe))" for act w'
        proof (cases video_stream)
          case None
          then show ?thesis using that by (simp add: when_stream_def)
        next
          case (Some s)
          then have "fraction_rate s" using v rates by simp
          then show ?thesis
            using that Some by (auto simp: when_stream_def video_lines_only_prints split: if_splits)
        qed
        have aud: "only_prints w' (snd (act w'))"
          if "act \<in> set (when_stream audio_stream (audio_lines pe))" for act w'
          using that by (auto simp: when_stream_def audio_lines_only_prints split: option.splits if_splits)
        have "only_prints ?w (snd (run_all ?body ?w))"
          by (rule run_all_only_prints)
             (auto simp: format_lines_only_prints vid aud print_line_only_prints simp del: prints.simps)
        moreover have "snd (demo_ffmpeg_python_probe pe self input_file w) = snd (run_all ?body ?w)"
          using ProbeOk v a by (simp add: demo_ffmpeg_python_probe_def Let_def del: prints.simps)
        ultimately show ?thesis
          using only_prints_trans [OF banner] by simp
      qed
    qed
  qed
qed

lemma parse_sample_rate: "parse_fraction ''30000/1001'' = Some (30000, 1001)"
  by (simp add: parse_fraction_def int_literal_def is_digit_def nat_of_digits_def)

lemma parse_mkdir_expression: "parse_fraction mkdir_expression = None"
  by (simp add: parse_fraction_def mkdir_expression_def int_literal_def is_digit_def)

lemma sample_first_video:
  "first_stream ''video'' [sample_data, sample_video rate, sample_audio] = Inr (Some (sample_video rate))"
  by (simp add: sample_data_def sample_video_def sample_audio_def bind_def lookup_def)

lemma sample_first_audio:
  "first_stream ''audio'' [sample_data, sample_video rate, sample_audio] = Inr (Some sample_audio)"
  by (simp add: sample_data_def sample_video_def sample_audio_def bind_def lookup_def)

text \<open>
  Claim C8, as stated, fails: the demo passes the frame-rate field to \<^verbatim>\<open>eval\<close>, so a
  field that holds another expression is executed. With \<open>mkdir_expression\<close> in the
  field, a directory that was not there before the demo exists after it.
\<close>

theorem probe_demo_evaluates_frame_rate_counterexample:
  "fs fresh_world (Path ''pwned'') = None
   \<and> fs (snd (demo_ffmpeg_python_probe (sample_probe_env mkdir_expression) default_self
              ''clip.mp4'' fresh_world)) (Path ''pwned'') = Some Dir
   \<and> \<not> only_prints fresh_world
          (snd (demo_ffmpeg_python_probe (sample_probe_env mkdir_expression) default_self
             ''clip.mp4'' fresh_world))"
proof -
  have p: "Path ''pwned'' = \<lparr>anchor = [], parts = [''pwned'']\<rparr>"
    by (rule Path_plain_name) simp_all
  have a: "fs fresh_world (Path ''pwned'') = None"
    by (simp add: fresh_world_def p)
  let ?pe = "sample_probe_env mkdir_expression"
  let ?w = "prints [rule80, ''DEMO 5: Probe Video Metadata'', rule80] fresh_world"
  have pr: "ffmpeg_probe ?pe ''clip.mp4''
              = ProbeOk \<lparr>format = sample_format,
                         streams = [sample_data, sample_video mkdir_expression, sample_audio]\<rparr>"
    by (simp add: sample_probe_env_def)
  have ne: "sample_video mkdir_expression \<noteq> []" "sample_audio \<noteq> []"
    by (simp_all add: sample_video_def sample_audio_def)
  have unfold: "demo_ffmpeg_python_probe ?pe default_self ''clip.mp4'' fresh_world
      = run_all (format_lines ?pe sample_format
                 @ video_lines ?pe (sample_video mkdir_expression)
                 @ audio_lines ?pe sample_audio
                 @ [print_line (Inr [])]) ?w"
    by (simp add: demo_ffmpeg_python_probe_def Let_def pr sample_first_video sample_first_audio
        when_stream_def ne del: prints.simps first_stream.simps)
  have b: "fs (snd (demo_ffmpeg_python_probe ?pe default_self ''clip.mp4'' fresh_world))
             (Path ''pwned'') = Some Dir"
    unfolding unfold
    by (simp add: sample_probe_env_def format_lines_def video_lines_def
        print_line_def print_fps_def py_eval_def parse_mkdir_expression
        sample_format_def sample_video_def bind_def lookup_def get_def print_def)
  show ?thesis using a b by (auto simp: only_prints_def)
qed

theorem probe_demo_only_prints_witness:
  "only_prints fresh_world
     (snd (demo_ffmpeg_python_probe (sample_probe_env ''30000/1001'') default_self
        ''clip.mp4'' fresh_world))"
proof -
  have "fraction_rate (sample_video ''30000/1001'')"
    by (simp add: fraction_rate_def sample_video_def parse_sample_rate)
  then have "\<forall>probe s. ffmpeg_probe (sample_probe_env ''30000/1001'') ''clip.mp4'' = ProbeOk probe
          \<and> first_stream ''video'' (streams probe) = Inr (Some s) \<longrightarrow> fraction_rate s"
    by (auto simp: sample_probe_env_def sample_first_video simp del: first_stream.simps)
  then show ?thesis by (rule probe_demo_only_prints)
qed

end
